theory Spec2Isabelle
  imports Main
begin

section \<open>Data model\<close>

text \<open>
  Modelled from the spec: the record types of \<^verbatim>\<open>fawltydeps.types\<close>, a module that is
  imported by the sources but is not among them (spec section 3).  A \<^verbatim>\<open>Location\<close> is a
  path or a synthetic marker such as \<^verbatim>\<open><stdin>\<close>, with an optional line number.  A
  declared dependency carries whatever the parser was given as its location (the
  extraction code passes its \<^verbatim>\<open>path_hint\<close> on unchanged), so the record is polymorphic
  in it.
\<close>

datatype source = Path string | SyntheticMarker string

record Location =
  path :: source
  lineno :: "int option"

record ParsedImport =
  import_name :: string
  import_location :: Location

record 'l DeclaredDependency =
  name :: string
  location :: 'l

record UndeclaredDependency =
  undeclared_name :: string
  undeclared_occurrences :: "ParsedImport list"

record 'l UnusedDependency =
  unused_name :: string
  unused_occurrences :: "'l DeclaredDependency list"


section \<open>Reconciliation engine\<close>

text \<open>
  Modelled from the spec: \<^verbatim>\<open>fawltydeps.check.compare_imports_to_dependencies\<close> is
  imported by \<^verbatim>\<open>tests/test_compare_imports_to_dependencies.py\<close> but its module is not
  among the sources.  The spec (section 4.7) groups each input by name into an ordered
  mapping from name to occurrences, keeping the first-seen order of the names; one
  step of that grouping: an occurrence joins the entry of its name, or opens a new
  entry at the end.
\<close>

fun add_occurrence ::
  "('a \<Rightarrow> string) \<Rightarrow> 'a \<Rightarrow> (string \<times> 'a list) list \<Rightarrow> (string \<times> 'a list) list" where
  "add_occurrence key x [] = [(key x, [x])]"
| "add_occurrence key x ((k, occ) # groups) =
     (if k = key x then (k, occ @ [x]) # groups
      else (k, occ) # add_occurrence key x groups)"

text \<open>Modelled from the spec: steps 1 and 2 of section 4.7, the loop over the input.\<close>

definition group_by_name :: "('a \<Rightarrow> string) \<Rightarrow> 'a list \<Rightarrow> (string \<times> 'a list) list" where
  "group_by_name key xs = foldl (\<lambda>groups x. add_occurrence key x groups) [] xs"

text \<open>
  Modelled from the spec: steps 3 to 5 of section 4.7.  The argument order is the one
  of the test's call: imports, dependencies, ignored unused, ignored undeclared.
\<close>

definition compare_imports_to_dependencies ::
  "ParsedImport list \<Rightarrow> 'l DeclaredDependency list \<Rightarrow> string list \<Rightarrow> string list
     \<Rightarrow> UndeclaredDependency list \<times> 'l UnusedDependency list" where
  "compare_imports_to_dependencies imports dependencies ignored_unused ignored_undeclared =
     (let imported = group_by_name import_name imports;
          declared = group_by_name name dependencies;
          undeclared =
            map (\<lambda>(n, occ). \<lparr>undeclared_name = n, undeclared_occurrences = occ\<rparr>)
              (filter (\<lambda>(n, occ). n \<notin> fst ` set declared \<and> n \<notin> set ignored_undeclared)
                 imported);
          unused =
            map (\<lambda>(n, occ). \<lparr>unused_name = n, unused_occurrences = occ\<rparr>)
              (filter (\<lambda>(n, occ). n \<notin> fst ` set imported \<and> n \<notin> set ignored_unused)
                 declared)
      in (undeclared, unused))"


text \<open>The factories of \<^verbatim>\<open>tests/test_compare_imports_to_dependencies.py\<close>.\<close>

definition imports_factory :: "string list \<Rightarrow> ParsedImport list" where
  "imports_factory imports =
     map (\<lambda>imp. \<lparr>import_name = imp,
                   import_location = \<lparr>path = SyntheticMarker ''<stdin>'', lineno = None\<rparr>\<rparr>) imports"

definition deps_factory :: "string list \<Rightarrow> Location DeclaredDependency list" where
  "deps_factory deps =
     map (\<lambda>dep. \<lparr>name = dep, location = \<lparr>path = Path ''foo'', lineno = None\<rparr>\<rparr>) deps"

definition undeclared_factory :: "string list \<Rightarrow> UndeclaredDependency list" where
  "undeclared_factory deps =
     map (\<lambda>dep. \<lparr>undeclared_name = dep, undeclared_occurrences = imports_factory [dep]\<rparr>) deps"

definition unused_factory :: "string list \<Rightarrow> Location UnusedDependency list" where
  "unused_factory deps =
     map (\<lambda>dep. \<lparr>unused_name = dep, unused_occurrences = deps_factory [dep]\<rparr>) deps"


section \<open>Python values, syntax trees and generators\<close>

text \<open>
  The values that \<^verbatim>\<open>tomllib.loads\<close> and \<^verbatim>\<open>ast.literal_eval\<close> hand to the extraction code.
  A dict is an association list in insertion order; \<open>VOpaque\<close> stands for the scalars
  the code never looks into (floats, dates, non-empty bytes, \<^verbatim>\<open>...\<close>).
\<close>

datatype pyval =
    VNone
  | VBool bool
  | VInt int
  | VStr string
  | VOpaque string
  | VList "pyval list"
  | VDict "(string \<times> pyval) list"

text \<open>
  The part of Python's \<^verbatim>\<open>ast\<close> that \<^verbatim>\<open>parse_setup_contents\<close> inspects.  \<open>Str\<close> is the
  string node of Python 3.7; from 3.8 on every literal is a \<open>Constant\<close>.  \<open>Expr\<close> is
  the expression statement; \<open>Other\<close> is any other node (the module, a compound
  statement, an assignment, a handler) with its child nodes in \<^verbatim>\<open>iter_child_nodes\<close>
  order, and \<open>ExprNode\<close> an expression in a non-statement position.
\<close>

datatype expr =
    Name string
  | Constant pyval
  | Str string
  | ListE "expr list"
  | DictE "(expr option \<times> expr) list"
  | Call expr "expr list" "keyword list"
  | OtherExpr string
and keyword = Keyword (kw_arg: "string option") (kw_value: expr)

datatype node =
    Expr expr
  | ExprNode expr
  | Other string "node list"

datatype exn =
    KeyError
  | TypeError
  | AttributeError
  | DependencyParsingError expr
  | OtherError string

datatype level = DEBUG | WARNING | ERROR

text \<open>
  Log records keep the arguments of the logging call instead of the formatted text:
  \<open>Dump e\<close> is \<^verbatim>\<open>ast.dump(e)\<close>, \<open>ExcText x\<close> is \<^verbatim>\<open>logger.debug(exc)\<close>, \<open>CouldNotParse\<close> is
  the warning with \<^verbatim>\<open>keyword.arg\<close> and the unparsed expression, \<open>FailedTo\<close> is
  \<^verbatim>\<open>ERROR_MESSAGE_TEMPLATE\<close> with its four arguments.
\<close>

datatype 'l log_msg =
    Dump expr
  | ExcText exn
  | CouldNotParse "string option" expr
  | FailedTo string string string 'l
  | NoPoetry

type_synonym 'l log_entry = "level \<times> 'l log_msg"

text \<open>
  A generator run to its end: the records it yielded, the log records it wrote, and
  the exception that ended it, if one did.
\<close>

datatype 'l gen =
  Gen (yielded: "'l DeclaredDependency list") (logged: "'l log_entry list") (raised: "exn option")

definition gen_empty :: "'l gen" where
  "gen_empty = Gen [] [] None"

definition yield :: "'l DeclaredDependency \<Rightarrow> 'l gen" where
  "yield d = Gen [d] [] None"

definition log :: "level \<Rightarrow> 'l log_msg \<Rightarrow> 'l gen" where
  "log lvl msg = Gen [] [(lvl, msg)] None"

definition raise :: "exn \<Rightarrow> 'l gen" where
  "raise e = Gen [] [] (Some e)"

text \<open>Sequencing: what follows a raise does not run.\<close>

fun then_gen :: "'l gen \<Rightarrow> 'l gen \<Rightarrow> 'l gen" where
  "then_gen (Gen ys ls (Some e)) g = Gen ys ls (Some e)"
| "then_gen (Gen ys ls None) (Gen ys' ls' r) = Gen (ys @ ys') (ls @ ls') r"

fun for_each :: "'a list \<Rightarrow> ('a \<Rightarrow> 'l gen) \<Rightarrow> 'l gen" where
  "for_each [] body = gen_empty"
| "for_each (x # xs) body = then_gen (body x) (for_each xs body)"

text \<open>
  \<^verbatim>\<open>try: ... except ...\<close>: the handler names the exceptions it catches (\<open>Some\<close> of what the
  except clause does); any other exception propagates.
\<close>

definition try_except :: "'l gen \<Rightarrow> (exn \<Rightarrow> 'l gen option) \<Rightarrow> 'l gen" where
  "try_except g handler =
     (case raised g of
        None \<Rightarrow> g
      | Some e \<Rightarrow>
          (case handler e of
             None \<Rightarrow> g
           | Some h \<Rightarrow> then_gen (Gen (yielded g) (logged g) None) h))"

text \<open>Subscription \<^verbatim>\<open>v[k]\<close> with a string key, \<^verbatim>\<open>v.keys()\<close>, \<^verbatim>\<open>v.values()\<close>, iteration,
  \<^verbatim>\<open>v.get(k, default)\<close> and \<^verbatim>\<open>k in v\<close>, with the exception Python raises on each type.\<close>

fun subscript :: "pyval \<Rightarrow> string \<Rightarrow> exn + pyval" where
  "subscript (VDict kvs) k = (case map_of kvs k of None \<Rightarrow> Inl KeyError | Some v \<Rightarrow> Inr v)"
| "subscript v k = Inl TypeError"

fun py_keys :: "pyval \<Rightarrow> exn + string list" where
  "py_keys (VDict kvs) = Inr (map fst kvs)"
| "py_keys v = Inl AttributeError"

fun py_values :: "pyval \<Rightarrow> exn + pyval list" where
  "py_values (VDict kvs) = Inr (map snd kvs)"
| "py_values v = Inl AttributeError"

fun py_iter :: "pyval \<Rightarrow> exn + pyval list" where
  "py_iter (VList xs) = Inr xs"
| "py_iter (VStr s) = Inr (map (\<lambda>c. VStr [c]) s)"
| "py_iter (VDict kvs) = Inr (map (\<lambda>kv. VStr (fst kv)) kvs)"
| "py_iter v = Inl TypeError"

fun py_get :: "pyval \<Rightarrow> string \<Rightarrow> pyval \<Rightarrow> exn + pyval" where
  "py_get (VDict kvs) k dflt = (case map_of kvs k of None \<Rightarrow> Inr dflt | Some v \<Rightarrow> Inr v)"
| "py_get v k dflt = Inl AttributeError"

fun is_substring :: "string \<Rightarrow> string \<Rightarrow> bool" where
  "is_substring sub [] = (sub = [])"
| "is_substring sub (c # cs) = (take (length sub) (c # cs) = sub \<or> is_substring sub cs)"

fun py_contains :: "string \<Rightarrow> pyval \<Rightarrow> exn + bool" where
  "py_contains k (VDict kvs) = Inr (k \<in> fst ` set kvs)"
| "py_contains k (VList xs) = Inr (VStr k \<in> set xs)"
| "py_contains k (VStr s) = Inr (is_substring k s)"
| "py_contains k v = Inl TypeError"


section \<open>Requirements text\<close>

text \<open>
  \<^verbatim>\<open>pkg_resources.parse_requirements\<close> is a library outside the repository, so it is a
  parameter of every parser: applied to the value it is given, it tells the \<^verbatim>\<open>key\<close>s of
  the requirements it yields, in order, and the exception that ends it, if any.
\<close>

type_synonym requirements_parser = "pyval \<Rightarrow> string list \<times> exn option"

definition parse_requirements_contents ::
  "requirements_parser \<Rightarrow> pyval \<Rightarrow> 'l \<Rightarrow> 'l gen" where
  "parse_requirements_contents parse_requirements text path_hint =
     (case parse_requirements text of
        (keys, err) \<Rightarrow>
          then_gen
            (for_each keys (\<lambda>key. yield \<lparr>name = key, location = path_hint\<rparr>))
            (case err of None \<Rightarrow> gen_empty | Some e \<Rightarrow> raise e))"


section \<open>setup.py\<close>

text \<open>The loop body of \<^verbatim>\<open>_extract_deps_from_bottom_level_list\<close>: the \<^verbatim>\<open>isinstance\<close> test
  against \<^verbatim>\<open>(ast.Constant, ast.Str)\<close> and \<^verbatim>\<open>ast.literal_eval\<close> of the element.\<close>

fun extract_element :: "requirements_parser \<Rightarrow> 'l \<Rightarrow> expr \<Rightarrow> 'l gen" where
  "extract_element parse_requirements path_hint (Constant v) =
     parse_requirements_contents parse_requirements v path_hint"
| "extract_element parse_requirements path_hint (Str s) =
     parse_requirements_contents parse_requirements (VStr s) path_hint"
| "extract_element parse_requirements path_hint element = gen_empty"

fun extract_deps_from_bottom_level_list :: "requirements_parser \<Rightarrow> 'l \<Rightarrow> expr \<Rightarrow> 'l gen" where
  "extract_deps_from_bottom_level_list parse_requirements path_hint (ListE elts) =
     for_each elts (extract_element parse_requirements path_hint)"
| "extract_deps_from_bottom_level_list parse_requirements path_hint deps =
     raise (DependencyParsingError deps)"

text \<open>The \<^verbatim>\<open>try\<close> block of \<^verbatim>\<open>_extract_deps_from_setup_call\<close> for one keyword, and its
  \<^verbatim>\<open>except DependencyParsingError\<close> clause.\<close>

definition keyword_body :: "requirements_parser \<Rightarrow> 'l \<Rightarrow> keyword \<Rightarrow> 'l gen" where
  "keyword_body parse_requirements path_hint kw =
     (if kw_arg kw = Some ''install_requires'' then
        extract_deps_from_bottom_level_list parse_requirements path_hint (kw_value kw)
      else if kw_arg kw = Some ''extras_require'' then
        (case kw_value kw of
           DictE items \<Rightarrow>
             then_gen (log DEBUG (Dump (kw_value kw)))
               (for_each (map snd items) (\<lambda>elements.
                  then_gen (log DEBUG (Dump elements))
                    (extract_deps_from_bottom_level_list parse_requirements path_hint elements)))
         | _ \<Rightarrow> raise (DependencyParsingError (kw_value kw)))
      else gen_empty)"

definition keyword_handler :: "keyword \<Rightarrow> exn \<Rightarrow> 'l gen option" where
  "keyword_handler kw e =
     (case e of
        DependencyParsingError v \<Rightarrow>
          Some (then_gen (log DEBUG (ExcText e)) (log WARNING (CouldNotParse (kw_arg kw) v)))
      | _ \<Rightarrow> None)"

definition extract_deps_from_setup_call ::
  "requirements_parser \<Rightarrow> 'l \<Rightarrow> keyword list \<Rightarrow> 'l gen" where
  "extract_deps_from_setup_call parse_requirements path_hint keywords =
     for_each keywords (\<lambda>kw.
       try_except (keyword_body parse_requirements path_hint kw) (keyword_handler kw))"

fun is_setup_function_call :: "node \<Rightarrow> bool" where
  "is_setup_function_call (Expr (Call (Name f) args keywords)) = (f = ''setup'')"
| "is_setup_function_call n = False"

text \<open>
  \<^verbatim>\<open>ast.walk\<close>: a queue that starts with the root; each node taken from the front has its
  children appended at the back.  The nodes below an expression are left out: none
  of them is an expression statement, and leaving them out does not change the order
  of the others.
\<close>

fun children :: "node \<Rightarrow> node list" where
  "children (Expr e) = [ExprNode e]"
| "children (ExprNode e) = []"
| "children (Other kind nodes) = nodes"

fun node_count :: "node \<Rightarrow> nat" where
  "node_count (Expr e) = 2"
| "node_count (ExprNode e) = 1"
| "node_count (Other kind nodes) = Suc (sum_list (map node_count nodes))"

function walk_queue :: "node list \<Rightarrow> node list" where
  "walk_queue [] = []"
| "walk_queue (n # todo) = n # walk_queue (todo @ children n)"
  by pat_completeness auto
termination
proof (relation "measure (\<lambda>todo. sum_list (map node_count todo))")
  show "wf (measure (\<lambda>todo. sum_list (map node_count todo)))"
    by simp
next
  fix n :: node and todo :: "node list"
  have "sum_list (map node_count (children n)) < node_count n"
    by (cases n) simp_all
  then show "(todo @ children n, n # todo) \<in> measure (\<lambda>todo. sum_list (map node_count todo))"
    by simp
qed

definition walk :: "node \<Rightarrow> node list" where
  "walk root = walk_queue [root]"

text \<open>The loop of \<^verbatim>\<open>parse_setup_contents\<close> over the walk, with its \<^verbatim>\<open>break\<close>.\<close>

fun setup_loop :: "requirements_parser \<Rightarrow> 'l \<Rightarrow> node list \<Rightarrow> 'l gen" where
  "setup_loop parse_requirements path_hint [] = gen_empty"
| "setup_loop parse_requirements path_hint (n # ns) =
     (if is_setup_function_call n then
        (case n of
           Expr (Call f args keywords) \<Rightarrow>
             extract_deps_from_setup_call parse_requirements path_hint keywords
         | _ \<Rightarrow> gen_empty)
      else setup_loop parse_requirements path_hint ns)"

text \<open>\<^verbatim>\<open>setup_contents\<close> is the tree that \<^verbatim>\<open>ast.parse\<close> returns for the text.\<close>

definition parse_setup_contents :: "requirements_parser \<Rightarrow> node \<Rightarrow> 'l \<Rightarrow> 'l gen" where
  "parse_setup_contents parse_requirements setup_contents path_hint =
     setup_loop parse_requirements path_hint (walk setup_contents)"


section \<open>pyproject.toml\<close>

text \<open>The three field parsers local to \<^verbatim>\<open>parse_poetry_pyproject_dependencies\<close>.\<close>

definition poetry_parse_main_dependencies :: "pyval \<Rightarrow> 'l \<Rightarrow> 'l gen" where
  "poetry_parse_main_dependencies poetry_config path_hint =
     (case subscript poetry_config ''dependencies'' of
        Inl e \<Rightarrow> raise e
      | Inr dependencies \<Rightarrow>
          (case py_keys dependencies of
             Inl e \<Rightarrow> raise e
           | Inr requirements \<Rightarrow>
               for_each requirements (\<lambda>requirement.
                 if requirement \<noteq> ''python''
                 then yield \<lparr>name = requirement, location = path_hint\<rparr>
                 else gen_empty)))"

definition parse_group_dependencies :: "pyval \<Rightarrow> 'l \<Rightarrow> 'l gen" where
  "parse_group_dependencies poetry_config path_hint =
     (case subscript poetry_config ''group'' of
        Inl e \<Rightarrow> raise e
      | Inr groups \<Rightarrow>
          (case py_values groups of
             Inl e \<Rightarrow> raise e
           | Inr group_tables \<Rightarrow>
               for_each group_tables (\<lambda>group.
                 case subscript group ''dependencies'' of
                   Inl e \<Rightarrow> raise e
                 | Inr dependencies \<Rightarrow>
                     (case py_keys dependencies of
                        Inl e \<Rightarrow> raise e
                      | Inr requirements \<Rightarrow>
                          for_each requirements (\<lambda>requirement.
                            if requirement \<noteq> ''python''
                            then yield \<lparr>name = requirement, location = path_hint\<rparr>
                            else gen_empty)))))"

definition parse_extra_dependencies :: "requirements_parser \<Rightarrow> pyval \<Rightarrow> 'l \<Rightarrow> 'l gen" where
  "parse_extra_dependencies parse_requirements poetry_config path_hint =
     (case subscript poetry_config ''extras'' of
        Inl e \<Rightarrow> raise e
      | Inr extras \<Rightarrow>
          (case py_values extras of
             Inl e \<Rightarrow> raise e
           | Inr groups \<Rightarrow>
               for_each groups (\<lambda>group.
                 case group of
                   VList requirements \<Rightarrow>
                     for_each requirements (\<lambda>requirement.
                       parse_requirements_contents parse_requirements requirement path_hint)
                 | _ \<Rightarrow> raise TypeError)))"

text \<open>The two \<^verbatim>\<open>except\<close> clauses that both field loops share: a \<^verbatim>\<open>KeyError\<close> is a missing
  field, an \<^verbatim>\<open>AttributeError\<close> or \<^verbatim>\<open>TypeError\<close> an invalid one.\<close>

definition field_handler :: "string \<Rightarrow> string \<Rightarrow> 'l \<Rightarrow> exn \<Rightarrow> 'l gen option" where
  "field_handler family field_type path_hint e =
     (case e of
        KeyError \<Rightarrow> Some (log DEBUG (FailedTo ''find'' family field_type path_hint))
      | AttributeError \<Rightarrow> Some (log ERROR (FailedTo ''parse'' family field_type path_hint))
      | TypeError \<Rightarrow> Some (log ERROR (FailedTo ''parse'' family field_type path_hint))
      | _ \<Rightarrow> None)"

definition parse_poetry_pyproject_dependencies ::
  "requirements_parser \<Rightarrow> pyval \<Rightarrow> 'l \<Rightarrow> 'l gen" where
  "parse_poetry_pyproject_dependencies parse_requirements poetry_config path_hint =
     for_each
       [(''main'', poetry_parse_main_dependencies),
        (''group'', parse_group_dependencies),
        (''extra'', parse_extra_dependencies parse_requirements)]
       (\<lambda>(field_type, parser).
          try_except (parser poetry_config path_hint)
            (field_handler ''Poetry'' field_type path_hint))"

text \<open>The two field parsers local to \<^verbatim>\<open>parse_pep621_pyproject_contents\<close>.\<close>

definition pep621_parse_main_dependencies ::
  "requirements_parser \<Rightarrow> pyval \<Rightarrow> 'l \<Rightarrow> 'l gen" where
  "pep621_parse_main_dependencies parse_requirements parsed_contents path_hint =
     (case subscript parsed_contents ''project'' of
        Inl e \<Rightarrow> raise e
      | Inr project \<Rightarrow>
          (case subscript project ''dependencies'' of
             Inl e \<Rightarrow> raise e
           | Inr dependencies \<Rightarrow>
               (case dependencies of
                  VList requirements \<Rightarrow>
                    for_each requirements (\<lambda>requirement.
                      parse_requirements_contents parse_requirements requirement path_hint)
                | _ \<Rightarrow> raise TypeError)))"

definition parse_optional_dependencies ::
  "requirements_parser \<Rightarrow> pyval \<Rightarrow> 'l \<Rightarrow> 'l gen" where
  "parse_optional_dependencies parse_requirements parsed_contents path_hint =
     (case subscript parsed_contents ''project'' of
        Inl e \<Rightarrow> raise e
      | Inr project \<Rightarrow>
          (case subscript project ''optional-dependencies'' of
             Inl e \<Rightarrow> raise e
           | Inr optional \<Rightarrow>
               (case py_values optional of
                  Inl e \<Rightarrow> raise e
                | Inr groups \<Rightarrow>
                    for_each groups (\<lambda>group.
                      case py_iter group of
                        Inl e \<Rightarrow> raise e
                      | Inr requirements \<Rightarrow>
                          for_each requirements (\<lambda>requirement.
                            parse_requirements_contents parse_requirements requirement
                              path_hint)))))"

definition parse_pep621_pyproject_contents ::
  "requirements_parser \<Rightarrow> pyval \<Rightarrow> 'l \<Rightarrow> 'l gen" where
  "parse_pep621_pyproject_contents parse_requirements parsed_contents path_hint =
     for_each
       [(''main'', pep621_parse_main_dependencies parse_requirements),
        (''optional'', parse_optional_dependencies parse_requirements)]
       (\<lambda>(field_type, parser).
          try_except (parser parsed_contents path_hint)
            (field_handler ''PEP621'' field_type path_hint))"

text \<open>\<^verbatim>\<open>parsed_contents\<close> is what \<^verbatim>\<open>tomllib.loads\<close> returns for the text.\<close>

definition parse_pyproject_contents :: "requirements_parser \<Rightarrow> pyval \<Rightarrow> 'l \<Rightarrow> 'l gen" where
  "parse_pyproject_contents parse_requirements parsed_contents path_hint =
     then_gen (parse_pep621_pyproject_contents parse_requirements parsed_contents path_hint)
       (case py_get parsed_contents ''tool'' (VDict []) of
          Inl e \<Rightarrow> raise e
        | Inr tool \<Rightarrow>
            (case py_contains ''poetry'' tool of
               Inl e \<Rightarrow> raise e
             | Inr True \<Rightarrow>
                 (case subscript parsed_contents ''tool'' of
                    Inl e \<Rightarrow> raise e
                  | Inr tool' \<Rightarrow>
                      (case subscript tool' ''poetry'' of
                         Inl e \<Rightarrow> raise e
                       | Inr poetry_config \<Rightarrow>
                           parse_poetry_pyproject_dependencies parse_requirements
                             poetry_config path_hint))
             | Inr False \<Rightarrow> log DEBUG NoPoetry))"


section \<open>A requirements parser for the examples\<close>

text \<open>
  The closed examples below need one concrete requirements parser.  This one does what
  \<^verbatim>\<open>pkg_resources.parse_requirements\<close> does on the inputs the examples use: in a string,
  blank lines and lines starting with \<^verbatim>\<open>#\<close> are skipped, a line that is a bare lower-case
  name yields that name, and any other line ends the parse with the library's
  \<^verbatim>\<open>InvalidRequirement\<close>; a value that cannot be iterated raises \<^verbatim>\<open>TypeError\<close>; a list or
  dict is read item by item.
\<close>

fun split_lines :: "string \<Rightarrow> string list" where
  "split_lines [] = [[]]"
| "split_lines (c # cs) =
     (if c = CHR 0x0A then [] # split_lines cs
      else (case split_lines cs of [] \<Rightarrow> [[c]] | l # ls \<Rightarrow> (c # l) # ls))"

fun sample_lines :: "string list \<Rightarrow> string list \<times> exn option" where
  "sample_lines [] = ([], None)"
| "sample_lines (l # ls) =
     (if l = [] \<or> hd l = CHR ''#'' then sample_lines ls
      else if set l \<subseteq> set ''abcdefghijklmnopqrstuvwxyz0123456789'' then
        (case sample_lines ls of (keys, err) \<Rightarrow> (l # keys, err))
      else ([], Some (OtherError ''InvalidRequirement'')))"

fun sample_chain :: "(string list \<times> exn option) list \<Rightarrow> string list \<times> exn option" where
  "sample_chain [] = ([], None)"
| "sample_chain ((keys, Some e) # rs) = (keys, Some e)"
| "sample_chain ((keys, None) # rs) = (case sample_chain rs of (keys', err) \<Rightarrow> (keys @ keys', err))"

fun sample_parse_requirements :: requirements_parser where
  "sample_parse_requirements (VStr s) = sample_lines (split_lines s)"
| "sample_parse_requirements (VList xs) = sample_chain (map sample_parse_requirements xs)"
| "sample_parse_requirements (VDict kvs) =
     sample_chain (map (\<lambda>kv. sample_lines (split_lines (fst kv))) kvs)"
| "sample_parse_requirements v = ([], Some TypeError)"


section \<open>The library's requirements parser\<close>

text \<open>
  \<^verbatim>\<open>pkg_resources.parse_requirements(strs)\<close> is
  \<^verbatim>\<open>map(Requirement, join_continuation(map(drop_comment, yield_lines(strs))))\<close>.
\<close>

text \<open>
  A character is a code point below 256.  \<open>is_space\<close> holds of the ones \<^verbatim>\<open>str.strip\<close> removes,
  \<open>is_line_boundary\<close> of the ones \<^verbatim>\<open>str.splitlines\<close> splits at.  \<open>splitlines\<close> keeps the empty
  line that \<^verbatim>\<open>str.splitlines\<close> does not give after a final boundary, at the end of the
  empty text and between a carriage return and its line feed; the filter of \<open>yield_lines\<close>
  removes it.
\<close>

definition is_space :: "char \<Rightarrow> bool" where
  "is_space c = (c \<in> set [CHR 0x09, CHR 0x0A, CHR 0x0B, CHR 0x0C, CHR 0x0D,
                            CHR 0x1C, CHR 0x1D, CHR 0x1E, CHR 0x1F, CHR 0x20, CHR 0x85, CHR 0xA0])"

definition is_line_boundary :: "char \<Rightarrow> bool" where
  "is_line_boundary c = (c \<in> set [CHR 0x0A, CHR 0x0B, CHR 0x0C, CHR 0x0D,
                                    CHR 0x1C, CHR 0x1D, CHR 0x1E, CHR 0x85])"

definition strip :: "string \<Rightarrow> string" where
  "strip s = rev (dropWhile is_space (rev (dropWhile is_space s)))"

fun splitlines :: "string \<Rightarrow> string list" where
  "splitlines [] = [[]]"
| "splitlines (c # cs) =
     (if is_line_boundary c then [] # splitlines cs
      else (case splitlines cs of [] \<Rightarrow> [[c]] | l # ls \<Rightarrow> (c # l) # ls))"

text \<open>
  \<^verbatim>\<open>_nonblank\<close> and \<^verbatim>\<open>yield_lines\<close>: the stripped lines of a string that are neither empty nor
  start with \<^verbatim>\<open>#\<close>; a list or a dict is read item by item (a dict gives its keys, which are
  strings), and a value that cannot be iterated raises \<^verbatim>\<open>TypeError\<close>.  A result is the
  lines produced and the exception that ends the iteration, if any.
\<close>

definition nonblank :: "string \<Rightarrow> bool" where
  "nonblank s = (s \<noteq> [] \<and> hd s \<noteq> CHR ''#'')"

fun chain_from_iterable :: "(string list \<times> exn option) list \<Rightarrow> string list \<times> exn option" where
  "chain_from_iterable [] = ([], None)"
| "chain_from_iterable ((ls, Some e) # rest) = (ls, Some e)"
| "chain_from_iterable ((ls, None) # rest) =
     (case chain_from_iterable rest of (ls', err) \<Rightarrow> (ls @ ls', err))"

fun yield_lines :: "pyval \<Rightarrow> string list \<times> exn option" where
  "yield_lines (VStr text) = (filter nonblank (map strip (splitlines text)), None)"
| "yield_lines (VList xs) = chain_from_iterable (map yield_lines xs)"
| "yield_lines (VDict kvs) =
     chain_from_iterable
       (map (\<lambda>kv. (filter nonblank (map strip (splitlines (fst kv))), None)) kvs)"
| "yield_lines v = ([], Some TypeError)"











section \<open>Grouping lemmas\<close>

lemma group_by_name_snoc:
  "group_by_name key (xs @ [x]) = add_occurrence key x (group_by_name key xs)"
  by (simp add: group_by_name_def)

lemma keys_add_occurrence:
  "map fst (add_occurrence key x groups) =
     (if key x \<in> fst ` set groups then map fst groups else map fst groups @ [key x])"
  by (induction groups) (auto split: if_splits)

lemma keys_group_by_name: "fst ` set (group_by_name key xs) = key ` set xs"
proof (induction xs rule: rev_induct)
  case Nil
  show ?case by (simp add: group_by_name_def)
next
  case (snoc x xs)
  have "fst ` set (add_occurrence key x (group_by_name key xs))
          = set (map fst (add_occurrence key x (group_by_name key xs)))"
    by simp
  also have "\<dots> = insert (key x) (fst ` set (group_by_name key xs))"
    unfolding keys_add_occurrence by auto
  finally show ?case
    using snoc.IH by (simp add: group_by_name_snoc)
qed

lemma distinct_group_by_name: "distinct (map fst (group_by_name key xs))"
proof (induction xs rule: rev_induct)
  case Nil
  show ?case by (simp add: group_by_name_def)
next
  case (snoc x xs)
  then show ?case
    by (simp add: group_by_name_snoc keys_add_occurrence)
qed

lemma occurrences_add_occurrence:
  assumes "(k, occ) \<in> set (add_occurrence key x groups)" and "distinct (map fst groups)"
  shows "(k \<noteq> key x \<and> (k, occ) \<in> set groups)
       \<or> (k = key x \<and> (\<exists>occ'. (k, occ') \<in> set groups \<and> occ = occ' @ [x]))
       \<or> (k = key x \<and> key x \<notin> fst ` set groups \<and> occ = [x])"
  using assms
proof (induction groups)
  case Nil
  then show ?case by simp
next
  case (Cons g groups)
  obtain k' occ' where g: "g = (k', occ')" by (cases g)
  show ?case
  proof (cases "k' = key x")
    case True
    with Cons.prems g show ?thesis by force
  next
    case False
    with Cons.prems g have "(k, occ) = (k', occ') \<or> (k, occ) \<in> set (add_occurrence key x groups)"
      by auto
    then show ?thesis
    proof
      assume "(k, occ) = (k', occ')"
      with False g show ?thesis by auto
    next
      assume "(k, occ) \<in> set (add_occurrence key x groups)"
      from Cons.IH [OF this] Cons.prems(2) False g show ?thesis by force
    qed
  qed
qed

lemma occurrences_group_by_name:
  "(k, occ) \<in> set (group_by_name key xs) \<Longrightarrow> occ = filter (\<lambda>x. key x = k) xs"
proof (induction xs arbitrary: k occ rule: rev_induct)
  case Nil
  then show ?case by (simp add: group_by_name_def)
next
  case (snoc x xs)
  from snoc.prems have mem: "(k, occ) \<in> set (add_occurrence key x (group_by_name key xs))"
    by (simp add: group_by_name_snoc)
  from occurrences_add_occurrence [OF mem distinct_group_by_name] show ?case
  proof (elim disjE conjE exE)
    assume "k \<noteq> key x" "(k, occ) \<in> set (group_by_name key xs)"
    then show ?thesis using snoc.IH by auto
  next
    fix occ'
    assume "k = key x" "(k, occ') \<in> set (group_by_name key xs)" "occ = occ' @ [x]"
    then show ?thesis using snoc.IH by auto
  next
    assume k: "k = key x" and new: "key x \<notin> fst ` set (group_by_name key xs)"
      and occ: "occ = [x]"
    from new have "key x \<notin> key ` set xs" by (simp add: keys_group_by_name)
    then have "\<forall>y\<in>set xs. key y \<noteq> key x"
      by (metis imageI)
    then have "filter (\<lambda>y. key y = key x) xs = []"
      by simp
    with k occ show ?thesis by simp
  qed
qed


section \<open>Reconciliation: names and occurrences of the output\<close>


lemma undeclared_names_list:
  "map undeclared_name (fst (compare_imports_to_dependencies imps deps ignored_unused ignored_undeclared))
     = filter (\<lambda>n. n \<notin> name ` set deps \<and> n \<notin> set ignored_undeclared)
         (map fst (group_by_name import_name imps))"
  by (simp add: compare_imports_to_dependencies_def Let_def keys_group_by_name
      filter_map comp_def case_prod_unfold)

lemma unused_names_list:
  "map unused_name (snd (compare_imports_to_dependencies imps deps ignored_unused ignored_undeclared))
     = filter (\<lambda>n. n \<notin> import_name ` set imps \<and> n \<notin> set ignored_unused)
         (map fst (group_by_name name deps))"
  by (simp add: compare_imports_to_dependencies_def Let_def keys_group_by_name
      filter_map comp_def case_prod_unfold)

lemma undeclared_names_set:
  "undeclared_name ` set (fst (compare_imports_to_dependencies imps deps ignored_unused ignored_undeclared))
     = {n \<in> import_name ` set imps. n \<notin> name ` set deps \<and> n \<notin> set ignored_undeclared}"
proof -
  have "undeclared_name ` set (fst (compare_imports_to_dependencies imps deps ignored_unused ignored_undeclared))
      = set (map undeclared_name (fst (compare_imports_to_dependencies imps deps ignored_unused ignored_undeclared)))"
    by simp
  also have "\<dots> = {n \<in> fst ` set (group_by_name import_name imps).
                      n \<notin> name ` set deps \<and> n \<notin> set ignored_undeclared}"
    unfolding undeclared_names_list by auto
  finally show ?thesis by (simp add: keys_group_by_name)
qed

lemma unused_names_set:
  "unused_name ` set (snd (compare_imports_to_dependencies imps deps ignored_unused ignored_undeclared))
     = {n \<in> name ` set deps. n \<notin> import_name ` set imps \<and> n \<notin> set ignored_unused}"
proof -
  have "unused_name ` set (snd (compare_imports_to_dependencies imps deps ignored_unused ignored_undeclared))
      = set (map unused_name (snd (compare_imports_to_dependencies imps deps ignored_unused ignored_undeclared)))"
    by simp
  also have "\<dots> = {n \<in> fst ` set (group_by_name name deps).
                      n \<notin> import_name ` set imps \<and> n \<notin> set ignored_unused}"
    unfolding unused_names_list by auto
  finally show ?thesis by (simp add: keys_group_by_name)
qed

lemma distinct_undeclared_names:
  "distinct (map undeclared_name (fst (compare_imports_to_dependencies imps deps ignored_unused ignored_undeclared)))"
  unfolding undeclared_names_list by (simp add: distinct_group_by_name)

lemma distinct_unused_names:
  "distinct (map unused_name (snd (compare_imports_to_dependencies imps deps ignored_unused ignored_undeclared)))"
  unfolding unused_names_list by (simp add: distinct_group_by_name)

lemma undeclared_entry_occurrences:
  assumes "e \<in> set (fst (compare_imports_to_dependencies imps deps ignored_unused ignored_undeclared))"
  shows "undeclared_occurrences e = filter (\<lambda>i. import_name i = undeclared_name e) imps"
proof -
  from assms obtain n occ where mem: "(n, occ) \<in> set (group_by_name import_name imps)"
    and e: "e = \<lparr>undeclared_name = n, undeclared_occurrences = occ\<rparr>"
    by (auto simp: compare_imports_to_dependencies_def Let_def)
  from occurrences_group_by_name [OF mem] e show ?thesis
    by simp
qed

lemma unused_entry_occurrences:
  assumes "e \<in> set (snd (compare_imports_to_dependencies imps deps ignored_unused ignored_undeclared))"
  shows "unused_occurrences e = filter (\<lambda>d. name d = unused_name e) deps"
proof -
  from assms obtain n occ where mem: "(n, occ) \<in> set (group_by_name name deps)"
    and e: "e = \<lparr>unused_name = n, unused_occurrences = occ\<rparr>"
    by (auto simp: compare_imports_to_dependencies_def Let_def)
  from occurrences_group_by_name [OF mem] e show ?thesis
    by simp
qed

text \<open>The cases of \<^verbatim>\<open>tests/test_compare_imports_to_dependencies.py\<close>, on the model.\<close>

lemma test_compare_imports_to_dependencies:
  "compare_imports_to_dependencies [] [] [] [] = ([], [])"
  "compare_imports_to_dependencies (imports_factory [''pandas'']) [] [] []
     = (undeclared_factory [''pandas''], [])"
  "compare_imports_to_dependencies [] (deps_factory [''pandas'']) [] []
     = ([], unused_factory [''pandas''])"
  "compare_imports_to_dependencies (imports_factory [''pandas'']) (deps_factory [''pandas'']) [] []
     = ([], [])"
  "compare_imports_to_dependencies (imports_factory [''pandas'', ''numpy''])
       (deps_factory [''pandas'', ''scipy'']) [] []
     = (undeclared_factory [''numpy''], unused_factory [''scipy''])"
  "compare_imports_to_dependencies
       (imports_factory [''pandas'']
          @ [\<lparr>import_name = ''numpy'',
               import_location = \<lparr>path = Path ''my_file.py'', lineno = Some 3\<rparr>\<rparr>])
       (deps_factory [''pandas'', ''scipy'']) [] []
     = ([\<lparr>undeclared_name = ''numpy'',
           undeclared_occurrences =
             [\<lparr>import_name = ''numpy'',
                import_location = \<lparr>path = Path ''my_file.py'', lineno = Some 3\<rparr>\<rparr>]\<rparr>],
        unused_factory [''scipy''])"
  "compare_imports_to_dependencies [] (deps_factory [''black'']) [''black''] [] = ([], [])"
  "compare_imports_to_dependencies (imports_factory [''isort'']) (deps_factory [''isort''])
       [''isort''] [] = ([], [])"
  "compare_imports_to_dependencies (imports_factory [''isort'']) (deps_factory []) [''isort''] []
     = (undeclared_factory [''isort''], [])"
  "compare_imports_to_dependencies (imports_factory [''pandas'', ''numpy''])
       (deps_factory [''pandas'', ''isort'', ''black'']) [''isort''] []
     = (undeclared_factory [''numpy''], unused_factory [''black''])"
  "compare_imports_to_dependencies (imports_factory [''invalid_import'']) [] [] [''invalid_import'']
     = ([], [])"
  "compare_imports_to_dependencies (imports_factory [''isort'']) (deps_factory [''isort''])
       [] [''isort''] = ([], [])"
  "compare_imports_to_dependencies [] (deps_factory [''isort'']) [] [''isort'']
     = ([], unused_factory [''isort''])"
  "compare_imports_to_dependencies (imports_factory [''pandas'', ''numpy'', ''not_valid''])
       (deps_factory [''pandas'', ''black'']) [] [''not_valid'']
     = (undeclared_factory [''numpy''], unused_factory [''black''])"
  "compare_imports_to_dependencies (imports_factory [''pandas'', ''numpy'', ''not_valid''])
       (deps_factory [''pandas'', ''black'', ''isort'']) [''isort''] [''not_valid'']
     = (undeclared_factory [''numpy''], unused_factory [''black''])"
  by (simp_all add: compare_imports_to_dependencies_def group_by_name_def imports_factory_def
      deps_factory_def undeclared_factory_def unused_factory_def)

text \<open>
  C1.  Whatever the four inputs: no name of \<open>ignored_unused\<close> is in the unused list, no
  name of \<open>ignored_undeclared\<close> is in the undeclared list, a name that is both imported
  and declared is in neither list, and every name reported with the ignore lists is
  also reported without them.
\<close>

theorem ignore_lists_only_suppress:
  "(\<forall>u \<in> set (snd (compare_imports_to_dependencies imps deps ignored_unused ignored_undeclared)).
       unused_name u \<notin> set ignored_unused)
   \<and> (\<forall>u \<in> set (fst (compare_imports_to_dependencies imps deps ignored_unused ignored_undeclared)).
       undeclared_name u \<notin> set ignored_undeclared)
   \<and> (\<forall>n. n \<in> import_name ` set imps \<and> n \<in> name ` set deps \<longrightarrow>
         n \<notin> undeclared_name ` set (fst (compare_imports_to_dependencies imps deps ignored_unused ignored_undeclared))
       \<and> n \<notin> unused_name ` set (snd (compare_imports_to_dependencies imps deps ignored_unused ignored_undeclared)))
   \<and> undeclared_name ` set (fst (compare_imports_to_dependencies imps deps ignored_unused ignored_undeclared))
       \<subseteq> undeclared_name ` set (fst (compare_imports_to_dependencies imps deps [] []))
   \<and> unused_name ` set (snd (compare_imports_to_dependencies imps deps ignored_unused ignored_undeclared))
       \<subseteq> unused_name ` set (snd (compare_imports_to_dependencies imps deps [] []))"
proof (intro conjI ballI allI impI)
  fix u assume "u \<in> set (snd (compare_imports_to_dependencies imps deps ignored_unused ignored_undeclared))"
  then have "unused_name u \<in> unused_name ` set (snd (compare_imports_to_dependencies imps deps ignored_unused ignored_undeclared))"
    by (rule imageI)
  then show "unused_name u \<notin> set ignored_unused"
    unfolding unused_names_set by simp
next
  fix u assume "u \<in> set (fst (compare_imports_to_dependencies imps deps ignored_unused ignored_undeclared))"
  then have "undeclared_name u \<in> undeclared_name ` set (fst (compare_imports_to_dependencies imps deps ignored_unused ignored_undeclared))"
    by (rule imageI)
  then show "undeclared_name u \<notin> set ignored_undeclared"
    unfolding undeclared_names_set by simp
next
  fix n assume "n \<in> import_name ` set imps \<and> n \<in> name ` set deps"
  then show "n \<notin> undeclared_name ` set (fst (compare_imports_to_dependencies imps deps ignored_unused ignored_undeclared))"
    unfolding undeclared_names_set by simp
next
  fix n assume "n \<in> import_name ` set imps \<and> n \<in> name ` set deps"
  then show "n \<notin> unused_name ` set (snd (compare_imports_to_dependencies imps deps ignored_unused ignored_undeclared))"
    unfolding unused_names_set by simp
next
  show "undeclared_name ` set (fst (compare_imports_to_dependencies imps deps ignored_unused ignored_undeclared))
       \<subseteq> undeclared_name ` set (fst (compare_imports_to_dependencies imps deps [] []))"
    unfolding undeclared_names_set by auto
next
  show "unused_name ` set (snd (compare_imports_to_dependencies imps deps ignored_unused ignored_undeclared))
       \<subseteq> unused_name ` set (snd (compare_imports_to_dependencies imps deps [] []))"
    unfolding unused_names_set by auto
qed


theorem ignore_lists_only_suppress_witness:
  "compare_imports_to_dependencies
       (imports_factory [''pandas'', ''numpy'', ''not_valid''])
       (deps_factory [''pandas'', ''black'', ''isort'']) [''isort''] [''not_valid'']
     = (undeclared_factory [''numpy''], unused_factory [''black''])
   \<and> ''pandas'' \<in> import_name ` set (imports_factory [''pandas'', ''numpy'', ''not_valid''])
   \<and> ''pandas'' \<in> name ` set (deps_factory [''pandas'', ''black'', ''isort''])
   \<and> ''pandas'' \<notin> undeclared_name ` set (fst (compare_imports_to_dependencies
       (imports_factory [''pandas'', ''numpy'', ''not_valid''])
       (deps_factory [''pandas'', ''black'', ''isort'']) [''isort''] [''not_valid'']))
   \<and> ''isort'' \<notin> unused_name ` set (snd (compare_imports_to_dependencies
       (imports_factory [''pandas'', ''numpy'', ''not_valid''])
       (deps_factory [''pandas'', ''black'', ''isort'']) [''isort''] [''not_valid'']))"
proof -
  have run: "compare_imports_to_dependencies
       (imports_factory [''pandas'', ''numpy'', ''not_valid''])
       (deps_factory [''pandas'', ''black'', ''isort'']) [''isort''] [''not_valid'']
     = (undeclared_factory [''numpy''], unused_factory [''black''])"
    by (simp add: compare_imports_to_dependencies_def group_by_name_def imports_factory_def
        deps_factory_def undeclared_factory_def unused_factory_def)
  have both: "''pandas'' \<in> import_name ` set (imports_factory [''pandas'', ''numpy'', ''not_valid''])
      \<and> ''pandas'' \<in> name ` set (deps_factory [''pandas'', ''black'', ''isort''])"
    by (simp add: imports_factory_def deps_factory_def)
  from ignore_lists_only_suppress
         [of "imports_factory [''pandas'', ''numpy'', ''not_valid'']"
             "deps_factory [''pandas'', ''black'', ''isort'']" "[''isort'']" "[''not_valid'']"]
       both run
  show ?thesis
    by (simp add: unused_factory_def)
qed

text \<open>
  C2.  With both ignore lists empty and no name both imported and declared, the
  undeclared list names exactly the imported names and the unused list exactly the
  declared names, each once; with all four inputs empty the result is a pair of
  empty lists.
\<close>

theorem disjoint_inputs_reported_in_full:
  "(import_name ` set imps \<inter> name ` set deps = {} \<longrightarrow>
      undeclared_name ` set (fst (compare_imports_to_dependencies imps deps [] []))
        = import_name ` set imps
    \<and> distinct (map undeclared_name (fst (compare_imports_to_dependencies imps deps [] [])))
    \<and> unused_name ` set (snd (compare_imports_to_dependencies imps deps [] []))
        = name ` set deps
    \<and> distinct (map unused_name (snd (compare_imports_to_dependencies imps deps [] []))))
   \<and> compare_imports_to_dependencies [] [] [] [] = ([], [])"
proof (intro conjI impI)
  assume disj: "import_name ` set imps \<inter> name ` set deps = {}"
  show "undeclared_name ` set (fst (compare_imports_to_dependencies imps deps [] []))
        = import_name ` set imps"
    unfolding undeclared_names_set using disj by auto
  show "unused_name ` set (snd (compare_imports_to_dependencies imps deps [] []))
        = name ` set deps"
    unfolding unused_names_set using disj by auto
next
  show "distinct (map undeclared_name (fst (compare_imports_to_dependencies imps deps [] [])))"
    by (rule distinct_undeclared_names)
  show "distinct (map unused_name (snd (compare_imports_to_dependencies imps deps [] [])))"
    by (rule distinct_unused_names)
next
  show "compare_imports_to_dependencies [] [] [] [] = ([], [])"
    by (simp add: compare_imports_to_dependencies_def group_by_name_def)
qed

theorem disjoint_inputs_reported_in_full_witness:
  "import_name ` set (imports_factory [''pandas'', ''numpy'']) \<inter> name ` set (deps_factory [''scipy'']) = {}
   \<and> compare_imports_to_dependencies (imports_factory [''pandas'', ''numpy'']) (deps_factory [''scipy'']) [] []
       = (undeclared_factory [''pandas'', ''numpy''], unused_factory [''scipy''])
   \<and> undeclared_name ` set (fst (compare_imports_to_dependencies
         (imports_factory [''pandas'', ''numpy'']) (deps_factory [''scipy'']) [] []))
       = {''pandas'', ''numpy''}
   \<and> unused_name ` set (snd (compare_imports_to_dependencies
         (imports_factory [''pandas'', ''numpy'']) (deps_factory [''scipy'']) [] []))
       = {''scipy''}"
proof -
  have disj: "import_name ` set (imports_factory [''pandas'', ''numpy''])
                \<inter> name ` set (deps_factory [''scipy'']) = {}"
    by (simp add: imports_factory_def deps_factory_def)
  have run: "compare_imports_to_dependencies (imports_factory [''pandas'', ''numpy''])
               (deps_factory [''scipy'']) [] []
       = (undeclared_factory [''pandas'', ''numpy''], unused_factory [''scipy''])"
    by (simp add: compare_imports_to_dependencies_def group_by_name_def imports_factory_def
        deps_factory_def undeclared_factory_def unused_factory_def)
  from disjoint_inputs_reported_in_full
         [of "imports_factory [''pandas'', ''numpy'']" "deps_factory [''scipy'']"] disj run
  show ?thesis
    by (simp add: imports_factory_def deps_factory_def undeclared_factory_def unused_factory_def)
qed

text \<open>
  C3.  In both output lists every occurrence of an entry carries the entry's name and
  no two entries share a name.  For two imports \<open>a\<close> and \<open>b\<close> of one name, \<open>a\<close> before
  \<open>b\<close>, whatever their locations: an entry of the undeclared list with that name holds
  the imports of the name in their input order, so \<open>a\<close> and \<open>b\<close> with \<open>a\<close> first; and
  there is exactly one such entry precisely when the name is reported, that is, when
  it is neither declared nor in \<open>ignored_undeclared\<close>.
\<close>

theorem entries_group_occurrences_by_name:
  "(\<forall>e \<in> set (fst (compare_imports_to_dependencies imps deps ignored_unused ignored_undeclared)).
      \<forall>i \<in> set (undeclared_occurrences e). import_name i = undeclared_name e)
   \<and> (\<forall>e \<in> set (snd (compare_imports_to_dependencies imps deps ignored_unused ignored_undeclared)).
      \<forall>d \<in> set (unused_occurrences e). name d = unused_name e)
   \<and> distinct (map undeclared_name
        (fst (compare_imports_to_dependencies imps deps ignored_unused ignored_undeclared)))
   \<and> distinct (map unused_name
        (snd (compare_imports_to_dependencies imps deps ignored_unused ignored_undeclared)))
   \<and> (\<forall>n xs a ys b zs.
        imps = xs @ a # ys @ b # zs \<and> import_name a = n \<and> import_name b = n \<longrightarrow>
        ((\<exists>!e. e \<in> set (fst (compare_imports_to_dependencies imps deps ignored_unused ignored_undeclared))
              \<and> undeclared_name e = n)
           \<longleftrightarrow> n \<notin> name ` set deps \<and> n \<notin> set ignored_undeclared)
        \<and> (\<forall>e \<in> set (fst (compare_imports_to_dependencies imps deps ignored_unused ignored_undeclared)).
              undeclared_name e = n \<longrightarrow>
              undeclared_occurrences e =
                filter (\<lambda>i. import_name i = n) xs @ a # filter (\<lambda>i. import_name i = n) ys
                  @ b # filter (\<lambda>i. import_name i = n) zs))"
proof (intro conjI ballI allI impI)
  fix e i
  assume "e \<in> set (fst (compare_imports_to_dependencies imps deps ignored_unused ignored_undeclared))"
    and "i \<in> set (undeclared_occurrences e)"
  then show "import_name i = undeclared_name e"
    by (simp add: undeclared_entry_occurrences)
next
  fix e d
  assume "e \<in> set (snd (compare_imports_to_dependencies imps deps ignored_unused ignored_undeclared))"
    and "d \<in> set (unused_occurrences e)"
  then show "name d = unused_name e"
    by (simp add: unused_entry_occurrences)
next
  show "distinct (map undeclared_name
        (fst (compare_imports_to_dependencies imps deps ignored_unused ignored_undeclared)))"
    by (rule distinct_undeclared_names)
  show "distinct (map unused_name
        (snd (compare_imports_to_dependencies imps deps ignored_unused ignored_undeclared)))"
    by (rule distinct_unused_names)
next
  fix n xs a ys b zs
  assume h: "imps = xs @ a # ys @ b # zs \<and> import_name a = n \<and> import_name b = n"
  let ?r = "fst (compare_imports_to_dependencies imps deps ignored_unused ignored_undeclared)"
  from h have imported: "n \<in> import_name ` set imps" by auto
  have unique: "e' = e"
    if "e \<in> set ?r" "undeclared_name e = n" "e' \<in> set ?r" "undeclared_name e' = n" for e e'
    using that distinct_undeclared_names [of imps deps ignored_unused ignored_undeclared]
    by (metis distinct_map inj_onD)
  show "(\<exists>!e. e \<in> set ?r \<and> undeclared_name e = n)
          \<longleftrightarrow> n \<notin> name ` set deps \<and> n \<notin> set ignored_undeclared"
  proof
    assume "\<exists>!e. e \<in> set ?r \<and> undeclared_name e = n"
    then have "n \<in> undeclared_name ` set ?r" by auto
    then show "n \<notin> name ` set deps \<and> n \<notin> set ignored_undeclared"
      unfolding undeclared_names_set by simp
  next
    assume "n \<notin> name ` set deps \<and> n \<notin> set ignored_undeclared"
    with imported have "n \<in> undeclared_name ` set ?r"
      unfolding undeclared_names_set by simp
    then obtain e where "e \<in> set ?r" "undeclared_name e = n" by auto
    with unique show "\<exists>!e. e \<in> set ?r \<and> undeclared_name e = n"
      by blast
  qed
next
  fix n xs a ys b zs e
  assume h: "imps = xs @ a # ys @ b # zs \<and> import_name a = n \<and> import_name b = n"
    and e: "e \<in> set (fst (compare_imports_to_dependencies imps deps ignored_unused ignored_undeclared))"
    and n: "undeclared_name e = n"
  from undeclared_entry_occurrences [OF e] n h
  show "undeclared_occurrences e =
          filter (\<lambda>i. import_name i = n) xs @ a # filter (\<lambda>i. import_name i = n) ys
            @ b # filter (\<lambda>i. import_name i = n) zs"
    by simp
qed


theorem entries_group_occurrences_by_name_witness:
  "compare_imports_to_dependencies
       (imports_factory [''numpy'', ''pandas'']
          @ [\<lparr>import_name = ''numpy'',
               import_location = \<lparr>path = Path ''my_file.py'', lineno = Some 3\<rparr>\<rparr>])
       (deps_factory [''pandas'']) [] []
     = ([\<lparr>undeclared_name = ''numpy'',
           undeclared_occurrences =
             [\<lparr>import_name = ''numpy'',
                import_location = \<lparr>path = SyntheticMarker ''<stdin>'', lineno = None\<rparr>\<rparr>,
              \<lparr>import_name = ''numpy'',
                import_location = \<lparr>path = Path ''my_file.py'', lineno = Some 3\<rparr>\<rparr>]\<rparr>], [])
   \<and> ''numpy'' \<notin> name ` set (deps_factory [''pandas''])
   \<and> (\<exists>!e. e \<in> set (fst (compare_imports_to_dependencies
       (imports_factory [''numpy'', ''pandas'']
          @ [\<lparr>import_name = ''numpy'',
               import_location = \<lparr>path = Path ''my_file.py'', lineno = Some 3\<rparr>\<rparr>])
       (deps_factory [''pandas'']) [] [])) \<and> undeclared_name e = ''numpy'')"
proof -
  let ?a = "\<lparr>import_name = ''numpy'',
              import_location = \<lparr>path = SyntheticMarker ''<stdin>'', lineno = None\<rparr>\<rparr>"
  let ?b = "\<lparr>import_name = ''numpy'',
              import_location = \<lparr>path = Path ''my_file.py'', lineno = Some 3\<rparr>\<rparr>"
  let ?imps = "imports_factory [''numpy'', ''pandas''] @ [?b]"
  have run: "compare_imports_to_dependencies ?imps (deps_factory [''pandas'']) [] []
      = ([\<lparr>undeclared_name = ''numpy'', undeclared_occurrences = [?a, ?b]\<rparr>], [])"
    by (simp add: compare_imports_to_dependencies_def group_by_name_def imports_factory_def
        deps_factory_def)
  have hyp: "?imps = [] @ ?a # imports_factory [''pandas''] @ ?b # []
      \<and> import_name ?a = ''numpy'' \<and> import_name ?b = ''numpy''"
    by (simp add: imports_factory_def deps_factory_def)
  have reported: "''numpy'' \<notin> name ` set (deps_factory [''pandas'']) \<and> ''numpy'' \<notin> set []"
    by (simp add: deps_factory_def)
  note grouped = entries_group_occurrences_by_name
      [of ?imps "deps_factory [''pandas'']" "[]" "[]",
       THEN conjunct2, THEN conjunct2, THEN conjunct2, THEN conjunct2,
       THEN spec, THEN spec, THEN spec, THEN spec, THEN spec, THEN spec, THEN mp, OF hyp]
  from grouped [THEN conjunct1] reported run show ?thesis
    by simp
qed


section \<open>Generators\<close>

lemma then_gen_empty_left: "then_gen gen_empty g = g"
  by (cases g) (simp add: gen_empty_def)

lemma then_gen_empty_right: "then_gen g gen_empty = g"
  by (cases g; cases "raised g") (auto simp: gen_empty_def)


lemma yielded_then_gen:
  "yielded (then_gen g1 g2) = yielded g1 @ (if raised g1 = None then yielded g2 else [])"
  by (cases g1; cases g2; cases "raised g1") auto

lemma logged_then_gen:
  "logged (then_gen g1 g2) = logged g1 @ (if raised g1 = None then logged g2 else [])"
  by (cases g1; cases g2; cases "raised g1") auto


lemma then_gen_assoc: "then_gen (then_gen g1 g2) g3 = then_gen g1 (then_gen g2 g3)"
  by (cases g1; cases g2; cases g3; cases "raised g1"; cases "raised g2") auto

lemma for_each_append:
  "for_each (xs @ ys) body = then_gen (for_each xs body) (for_each ys body)"
  by (induction xs) (simp_all add: then_gen_empty_left then_gen_assoc)

lemma for_each_yield:
  "for_each xs (\<lambda>x. yield (f x)) = Gen (map f xs) [] None"
  by (induction xs) (simp_all add: gen_empty_def yield_def)


lemma parse_requirements_contents_result:
  "parse_requirements_contents parse_requirements text path_hint
     = Gen (map (\<lambda>key. \<lparr>name = key, location = path_hint\<rparr>) (fst (parse_requirements text))) []
         (snd (parse_requirements text))"
  by (cases "parse_requirements text"; cases "snd (parse_requirements text)")
     (simp_all add: parse_requirements_contents_def for_each_yield gen_empty_def raise_def)

lemma for_each_no_raise:
  "\<forall>x \<in> set xs. raised (f x) = None \<Longrightarrow>
     for_each xs f = Gen (concat (map (\<lambda>x. yielded (f x)) xs)) (concat (map (\<lambda>x. logged (f x)) xs)) None"
proof (induction xs)
  case Nil
  show ?case by (simp add: gen_empty_def)
next
  case (Cons x xs)
  then have "raised (f x) = None" by simp
  then have "f x = Gen (yielded (f x)) (logged (f x)) None"
    by (cases "f x") simp
  then have "then_gen (f x) g = then_gen (Gen (yielded (f x)) (logged (f x)) None) g" for g
    by simp
  with Cons show ?case by simp
qed

lemma logged_for_each_silent:
  "\<forall>x \<in> set xs. logged (f x) = [] \<Longrightarrow> logged (for_each xs f) = []"
  by (induction xs) (simp_all add: gen_empty_def logged_then_gen)

lemma logged_extract_element: "logged (extract_element p h element) = []"
  by (cases element) (simp_all add: parse_requirements_contents_result gen_empty_def)

lemma logged_bottom_level_list: "logged (extract_deps_from_bottom_level_list p h deps) = []"
  by (cases deps) (simp_all add: logged_for_each_silent logged_extract_element raise_def)


section \<open>Requirements text: lines skipped, lines joined, and the line that ends the parse\<close>






lemma lines_of_nothing: "fst (yield_lines (VStr [])) = []"
  by (simp add: strip_def nonblank_def)
























section \<open>setup.py: which call is read\<close>

lemma walk_queue_level:
  "walk_queue (q @ r) = q @ walk_queue (r @ concat (map children q))"
proof (induction q arbitrary: r)
  case Nil
  show ?case by simp
next
  case (Cons n q)
  have "walk_queue ((n # q) @ r) = n # walk_queue (q @ (r @ children n))"
    by simp
  also have "\<dots> = n # q @ walk_queue ((r @ children n) @ concat (map children q))"
    by (simp only: Cons.IH)
  finally show ?case by simp
qed

lemma walk_module:
  "walk (Other kind body) = Other kind body # body @ walk_queue (concat (map children body))"
  using walk_queue_level [of body "[]"] by (simp add: walk_def)

lemma setup_loop_skip:
  "\<forall>m \<in> set pre. \<not> is_setup_function_call m \<Longrightarrow>
     setup_loop p h (pre @ ns) = setup_loop p h ns"
  by (induction pre) simp_all

lemma setup_loop_none:
  "\<forall>m \<in> set ns. \<not> is_setup_function_call m \<Longrightarrow> setup_loop p h ns = gen_empty"
  by (induction ns) simp_all

lemma is_setup_function_call_Expr:
  "is_setup_function_call n \<Longrightarrow> \<exists>e. n = Expr e"
  by (cases n) simp_all

text \<open>
  C5, as the code has it.  The call used is the first expression statement calling the
  bare name \<open>setup\<close> in the order of \<^verbatim>\<open>ast.walk\<close>, which is breadth first over the whole
  tree; everything after it is ignored.  So the first such statement of the module body
  is used when there is one, whatever is nested or comes later; otherwise a nested one
  is used; and when no expression statement of the tree is such a call (a call in an
  assignment, say) nothing is extracted.
\<close>

theorem first_setup_statement_in_walk_order:
  "(walk setup_contents = pre @ Expr (Call (Name ''setup'') args keywords) # post
      \<and> (\<forall>n \<in> set pre. \<not> is_setup_function_call n) \<longrightarrow>
      parse_setup_contents parse_requirements setup_contents path_hint
        = extract_deps_from_setup_call parse_requirements path_hint keywords)
   \<and> (body = pre @ Expr (Call (Name ''setup'') args keywords) # post
      \<and> (\<forall>n \<in> set pre. \<not> is_setup_function_call n) \<longrightarrow>
      parse_setup_contents parse_requirements (Other kind body) path_hint
        = extract_deps_from_setup_call parse_requirements path_hint keywords)
   \<and> ((\<forall>e. Expr e \<in> set (walk setup_contents) \<longrightarrow> \<not> is_setup_function_call (Expr e)) \<longrightarrow>
      parse_setup_contents parse_requirements setup_contents path_hint = gen_empty)"
proof (intro conjI impI)
  assume "walk setup_contents = pre @ Expr (Call (Name ''setup'') args keywords) # post
      \<and> (\<forall>n \<in> set pre. \<not> is_setup_function_call n)"
  then show "parse_setup_contents parse_requirements setup_contents path_hint
      = extract_deps_from_setup_call parse_requirements path_hint keywords"
    by (simp add: parse_setup_contents_def setup_loop_skip)
next
  assume h: "body = pre @ Expr (Call (Name ''setup'') args keywords) # post
      \<and> (\<forall>n \<in> set pre. \<not> is_setup_function_call n)"
  let ?rest = "post @ walk_queue (concat (map children body))"
  have "walk (Other kind body)
      = (Other kind body # pre) @ Expr (Call (Name ''setup'') args keywords) # ?rest"
    using h by (simp add: walk_module)
  moreover have "\<forall>n \<in> set (Other kind body # pre). \<not> is_setup_function_call n"
    using h by simp
  ultimately show "parse_setup_contents parse_requirements (Other kind body) path_hint
      = extract_deps_from_setup_call parse_requirements path_hint keywords"
    unfolding parse_setup_contents_def by (simp only: setup_loop_skip) simp
next
  assume "\<forall>e. Expr e \<in> set (walk setup_contents) \<longrightarrow> \<not> is_setup_function_call (Expr e)"
  then have "\<forall>m \<in> set (walk setup_contents). \<not> is_setup_function_call m"
    using is_setup_function_call_Expr by blast
  then show "parse_setup_contents parse_requirements setup_contents path_hint = gen_empty"
    by (simp add: parse_setup_contents_def setup_loop_none)
qed

text \<open>
  C5 as stated fails: a \<open>setup\<close> call that is an expression statement inside an \<^verbatim>\<open>if\<close>,
  not at the top level, gives its dependencies.
\<close>

theorem nested_setup_statement_is_used:
  "parse_setup_contents sample_parse_requirements
       (Other ''Module''
          [Other ''If''
             [ExprNode (Name ''cond''),
              Expr (Call (Name ''setup'') []
                      [Keyword (Some ''install_requires'') (ListE [Constant (VStr ''a'')])])]])
       ''setup.py''
     = Gen [\<lparr>name = ''a'', location = ''setup.py''\<rparr>] [] None"
  by (simp add: parse_setup_contents_def walk_def extract_deps_from_setup_call_def
      keyword_body_def try_except_def parse_requirements_contents_def yield_def gen_empty_def)


theorem first_setup_statement_in_walk_order_witness:
  "parse_setup_contents sample_parse_requirements
       (Other ''Module''
          [Other ''If''
             [ExprNode (Name ''cond''),
              Expr (Call (Name ''setup'') []
                      [Keyword (Some ''install_requires'') (ListE [Constant (VStr ''a'')])])],
           Expr (Call (Name ''setup'') []
                   [Keyword (Some ''install_requires'') (ListE [Constant (VStr ''b'')])]),
           Expr (Call (Name ''setup'') []
                   [Keyword (Some ''install_requires'') (ListE [Constant (VStr ''c'')])])])
       ''setup.py''
     = Gen [\<lparr>name = ''b'', location = ''setup.py''\<rparr>] [] None
   \<and> parse_setup_contents sample_parse_requirements
       (Other ''Module''
          [Other ''While''
             [ExprNode (Name ''cond''),
              Expr (Call (Name ''setup'') []
                      [Keyword (Some ''install_requires'') (ListE [Constant (VStr ''a'')])])]])
       ''setup.py''
     = Gen [\<lparr>name = ''a'', location = ''setup.py''\<rparr>] [] None
   \<and> parse_setup_contents sample_parse_requirements
       (Other ''Module''
          [Other ''Assign''
             [ExprNode (Name ''result''),
              ExprNode (Call (Name ''setup'') []
                      [Keyword (Some ''install_requires'') (ListE [Constant (VStr ''a'')])])]])
       ''setup.py''
     = Gen [] [] None"
proof -
  let ?call = "\<lambda>r. Call (Name ''setup'') [] [Keyword (Some ''install_requires'') (ListE [Constant (VStr r)])]"
  let ?nested = "Other ''If'' [ExprNode (Name ''cond''), Expr (?call ''a'')]"
  let ?loop = "Other ''Module'' [Other ''While'' [ExprNode (Name ''cond''), Expr (?call ''a'')]]"
  let ?assign = "Other ''Module'' [Other ''Assign'' [ExprNode (Name ''result''), ExprNode (?call ''a'')]]"
  have top: "[?nested, Expr (?call ''b''), Expr (?call ''c'')]
        = [?nested] @ Expr (?call ''b'') # [Expr (?call ''c'')]
      \<and> (\<forall>n \<in> set [?nested]. \<not> is_setup_function_call n)"
    by simp
  have deep: "walk ?loop
        = [?loop, Other ''While'' [ExprNode (Name ''cond''), Expr (?call ''a'')],
           ExprNode (Name ''cond'')] @ Expr (?call ''a'') # [ExprNode (?call ''a'')]
      \<and> (\<forall>n \<in> set [?loop, Other ''While'' [ExprNode (Name ''cond''), Expr (?call ''a'')],
           ExprNode (Name ''cond'')]. \<not> is_setup_function_call n)"
    by (simp add: walk_def)
  have none: "\<forall>e. Expr e \<in> set (walk ?assign) \<longrightarrow> \<not> is_setup_function_call (Expr e)"
    by (simp add: walk_def)
  note first = first_setup_statement_in_walk_order
      [where parse_requirements = sample_parse_requirements and path_hint = "''setup.py''"]
  from first [THEN conjunct2, THEN conjunct1, THEN mp, OF top, of "''Module''"]
       first [THEN conjunct1, THEN mp, OF deep]
       first [THEN conjunct2, THEN conjunct2, THEN mp, OF none]
  show ?thesis
    by (simp add: extract_deps_from_setup_call_def keyword_body_def try_except_def
        parse_requirements_contents_def yield_def gen_empty_def)
qed


section \<open>setup.py: keyword arguments\<close>

lemma try_except_keyword_handler:
  "raised g = Some (DependencyParsingError v) \<Longrightarrow>
     try_except g (keyword_handler kw)
       = Gen (yielded g)
           (logged g @ [(DEBUG, ExcText (DependencyParsingError v)),
                        (WARNING, CouldNotParse (kw_arg kw) v)]) None"
  by (simp add: try_except_def keyword_handler_def log_def)

lemma bottom_level_list_not_list:
  "\<forall>elts. bad \<noteq> ListE elts \<Longrightarrow>
     extract_deps_from_bottom_level_list p h bad = Gen [] [] (Some (DependencyParsingError bad))"
  by (cases bad) (simp_all add: raise_def)

lemma extras_require_body:
  assumes arg: "kw_arg kw = Some ''extras_require''"
    and val: "kw_value kw = DictE items"
    and split: "map snd items = pre @ bad # post"
    and bad: "\<forall>elts. bad \<noteq> ListE elts"
    and pre: "\<forall>elements \<in> set pre.
                raised (extract_deps_from_bottom_level_list p h elements) = None"
  shows "keyword_body p h kw
    = Gen (concat (map (\<lambda>elements. yielded (extract_deps_from_bottom_level_list p h elements)) pre))
        ((DEBUG, Dump (DictE items)) # map (\<lambda>elements. (DEBUG, Dump elements)) pre
           @ [(DEBUG, Dump bad)])
        (Some (DependencyParsingError bad))"
proof -
  let ?F = "\<lambda>elements. then_gen (log DEBUG (Dump elements))
              (extract_deps_from_bottom_level_list p h elements)"
  have F: "?F elements = Gen (yielded (extract_deps_from_bottom_level_list p h elements))
             [(DEBUG, Dump elements)] (raised (extract_deps_from_bottom_level_list p h elements))"
    for elements
    using logged_bottom_level_list [of p h elements]
    by (cases "extract_deps_from_bottom_level_list p h elements") (simp add: log_def)
  have "\<forall>elements \<in> set pre. raised (?F elements) = None"
    using pre by (simp add: F)
  from for_each_no_raise [OF this]
  have before: "for_each pre ?F
      = Gen (concat (map (\<lambda>elements. yielded (extract_deps_from_bottom_level_list p h elements)) pre))
          (map (\<lambda>elements. (DEBUG, Dump elements)) pre) None"
    by (simp add: F concat_map_singleton)
  have at_bad: "for_each (bad # post) ?F = Gen [] [(DEBUG, Dump bad)] (Some (DependencyParsingError bad))"
    by (simp add: F bottom_level_list_not_list [OF bad])
  have "for_each (map snd items) ?F = then_gen (for_each pre ?F) (for_each (bad # post) ?F)"
    unfolding split by (rule for_each_append)
  then show ?thesis
    unfolding before at_bad
    using arg val by (simp add: keyword_body_def log_def)
qed


lemma extras_require_not_mapping:
  assumes arg: "kw_arg kw = Some ''extras_require''"
    and val: "\<forall>items. kw_value kw \<noteq> DictE items"
  shows "keyword_body p h kw = Gen [] [] (Some (DependencyParsingError (kw_value kw)))"
  using assms by (cases "kw_value kw") (simp_all add: keyword_body_def raise_def)

lemma extras_require_keyword_first:
  "(kw_arg kw = Some ''extras_require'' \<and> kw_value kw = DictE items
      \<and> map snd items = pre @ bad # post \<and> (\<forall>elts. bad \<noteq> ListE elts)
      \<and> (\<forall>elements \<in> set pre.
            raised (extract_deps_from_bottom_level_list parse_requirements path_hint elements) = None)
    \<longrightarrow>
      extract_deps_from_setup_call parse_requirements path_hint (kw # later)
        = then_gen
            (Gen (concat (map (\<lambda>elements.
                     yielded (extract_deps_from_bottom_level_list parse_requirements path_hint
                                elements)) pre))
               ((DEBUG, Dump (DictE items)) # map (\<lambda>elements. (DEBUG, Dump elements)) pre
                  @ [(DEBUG, Dump bad), (DEBUG, ExcText (DependencyParsingError bad)),
                     (WARNING, CouldNotParse (Some ''extras_require'') bad)])
               None)
            (extract_deps_from_setup_call parse_requirements path_hint later))
   \<and> (kw_arg kw = Some ''extras_require'' \<and> (\<forall>items. kw_value kw \<noteq> DictE items)
    \<longrightarrow>
      extract_deps_from_setup_call parse_requirements path_hint (kw # later)
        = then_gen
            (Gen []
               [(DEBUG, ExcText (DependencyParsingError (kw_value kw))),
                (WARNING, CouldNotParse (Some ''extras_require'') (kw_value kw))]
               None)
            (extract_deps_from_setup_call parse_requirements path_hint later))"
proof (intro conjI impI)
  assume h: "kw_arg kw = Some ''extras_require'' \<and> kw_value kw = DictE items
      \<and> map snd items = pre @ bad # post \<and> (\<forall>elts. bad \<noteq> ListE elts)
      \<and> (\<forall>elements \<in> set pre.
            raised (extract_deps_from_bottom_level_list parse_requirements path_hint elements) = None)"
  then have body: "keyword_body parse_requirements path_hint kw
    = Gen (concat (map (\<lambda>elements.
             yielded (extract_deps_from_bottom_level_list parse_requirements path_hint elements)) pre))
        ((DEBUG, Dump (DictE items)) # map (\<lambda>elements. (DEBUG, Dump elements)) pre
           @ [(DEBUG, Dump bad)])
        (Some (DependencyParsingError bad))"
    by (intro extras_require_body) simp_all
  have "try_except (keyword_body parse_requirements path_hint kw) (keyword_handler kw)
    = Gen (concat (map (\<lambda>elements.
             yielded (extract_deps_from_bottom_level_list parse_requirements path_hint elements)) pre))
        ((DEBUG, Dump (DictE items)) # map (\<lambda>elements. (DEBUG, Dump elements)) pre
           @ [(DEBUG, Dump bad), (DEBUG, ExcText (DependencyParsingError bad)),
              (WARNING, CouldNotParse (Some ''extras_require'') bad)])
        None"
    using h
    by (simp add: body try_except_keyword_handler)
  then show "extract_deps_from_setup_call parse_requirements path_hint (kw # later)
        = then_gen
            (Gen (concat (map (\<lambda>elements.
                     yielded (extract_deps_from_bottom_level_list parse_requirements path_hint
                                elements)) pre))
               ((DEBUG, Dump (DictE items)) # map (\<lambda>elements. (DEBUG, Dump elements)) pre
                  @ [(DEBUG, Dump bad), (DEBUG, ExcText (DependencyParsingError bad)),
                     (WARNING, CouldNotParse (Some ''extras_require'') bad)])
               None)
            (extract_deps_from_setup_call parse_requirements path_hint later)"
    by (simp add: extract_deps_from_setup_call_def)
next
  assume h: "kw_arg kw = Some ''extras_require'' \<and> (\<forall>items. kw_value kw \<noteq> DictE items)"
  then have body: "keyword_body parse_requirements path_hint kw
      = Gen [] [] (Some (DependencyParsingError (kw_value kw)))"
    by (intro extras_require_not_mapping) simp_all
  have "try_except (keyword_body parse_requirements path_hint kw) (keyword_handler kw)
    = Gen [] [(DEBUG, ExcText (DependencyParsingError (kw_value kw))),
              (WARNING, CouldNotParse (Some ''extras_require'') (kw_value kw))] None"
    using h
    by (simp add: body try_except_keyword_handler)
  then show "extract_deps_from_setup_call parse_requirements path_hint (kw # later)
        = then_gen
            (Gen []
               [(DEBUG, ExcText (DependencyParsingError (kw_value kw))),
                (WARNING, CouldNotParse (Some ''extras_require'') (kw_value kw))]
               None)
            (extract_deps_from_setup_call parse_requirements path_hint later)"
    by (simp add: extract_deps_from_setup_call_def)
qed

text \<open>
  C6, as the code has it.  The \<^verbatim>\<open>try\<close> block spans the whole keyword.  In any call,
  whatever keywords stand before and after \<open>extras_require\<close>: when a value of a literal
  \<open>extras_require\<close> mapping is not a literal list, and the values before it were read
  without an exception, the keyword ends there: the records of the earlier values are
  kept, one warning names \<open>extras_require\<close> and the offending expression, the values
  after it are not read, and the keyword raises nothing, so that the keywords after it
  are processed as they would be without it.  When the \<open>extras_require\<close> value itself is
  not a literal mapping, the keyword gives no record and the same warning, raises
  nothing, and the keywords after it are processed.  (The keywords before it come
  first: if one of them ends with an exception, the call ends there.)
\<close>

theorem extras_require_stops_at_first_bad_entry:
  "(kw_arg kw = Some ''extras_require'' \<and> kw_value kw = DictE items
      \<and> map snd items = pre @ bad # post \<and> (\<forall>elts. bad \<noteq> ListE elts)
      \<and> (\<forall>elements \<in> set pre.
            raised (extract_deps_from_bottom_level_list parse_requirements path_hint elements) = None)
    \<longrightarrow>
      extract_deps_from_setup_call parse_requirements path_hint (earlier @ kw # later)
        = then_gen (extract_deps_from_setup_call parse_requirements path_hint earlier)
            (then_gen
               (Gen (concat (map (\<lambda>elements.
                        yielded (extract_deps_from_bottom_level_list parse_requirements path_hint
                                   elements)) pre))
                  ((DEBUG, Dump (DictE items)) # map (\<lambda>elements. (DEBUG, Dump elements)) pre
                     @ [(DEBUG, Dump bad), (DEBUG, ExcText (DependencyParsingError bad)),
                        (WARNING, CouldNotParse (Some ''extras_require'') bad)])
                  None)
               (extract_deps_from_setup_call parse_requirements path_hint later)))
   \<and> (kw_arg kw = Some ''extras_require'' \<and> (\<forall>items. kw_value kw \<noteq> DictE items)
    \<longrightarrow>
      extract_deps_from_setup_call parse_requirements path_hint (earlier @ kw # later)
        = then_gen (extract_deps_from_setup_call parse_requirements path_hint earlier)
            (then_gen
               (Gen []
                  [(DEBUG, ExcText (DependencyParsingError (kw_value kw))),
                   (WARNING, CouldNotParse (Some ''extras_require'') (kw_value kw))]
                  None)
               (extract_deps_from_setup_call parse_requirements path_hint later)))"
proof -
  have split: "extract_deps_from_setup_call parse_requirements path_hint (earlier @ kw # later)
      = then_gen (extract_deps_from_setup_call parse_requirements path_hint earlier)
          (extract_deps_from_setup_call parse_requirements path_hint (kw # later))"
    unfolding extract_deps_from_setup_call_def by (rule for_each_append)
  show ?thesis
    unfolding split
    using extras_require_keyword_first
            [of kw items pre bad post parse_requirements path_hint later]
    by simp
qed

text \<open>
  C6 as stated fails: the entry \<open>y\<close> gives the record \<open>b\<close> when it stands alone, and no
  record when it follows an entry whose value is not a literal list.
\<close>

theorem later_extras_entry_is_skipped:
  "yielded (parse_setup_contents sample_parse_requirements
       (Other ''Module''
          [Expr (Call (Name ''setup'') []
             [Keyword (Some ''extras_require'')
                (DictE [(Some (Constant (VStr ''x'')), Name ''deps''),
                        (Some (Constant (VStr ''y'')), ListE [Constant (VStr ''b'')])])])])
       ''setup.py'')
     = []
   \<and> yielded (parse_setup_contents sample_parse_requirements
       (Other ''Module''
          [Expr (Call (Name ''setup'') []
             [Keyword (Some ''extras_require'')
                (DictE [(Some (Constant (VStr ''y'')), ListE [Constant (VStr ''b'')])])])])
       ''setup.py'')
     = [\<lparr>name = ''b'', location = ''setup.py''\<rparr>]"
  by (simp add: parse_setup_contents_def walk_def extract_deps_from_setup_call_def
      keyword_body_def keyword_handler_def try_except_def parse_requirements_contents_def
      yield_def gen_empty_def raise_def log_def)

text \<open>
  C10 at \<^verbatim>\<open>setup(install_requires=["a", 1, "b"])\<close>, parsed by Python 3.8 or later: the
  number is an \<^verbatim>\<open>ast.Constant\<close>, passes the \<^verbatim>\<open>isinstance\<close> test and is handed to
  \<^verbatim>\<open>parse_requirements_contents\<close>; the library cannot iterate it, the \<^verbatim>\<open>TypeError\<close> is not a
  \<^verbatim>\<open>DependencyParsingError\<close>, and the parse ends with it before \<open>b\<close> is read.
\<close>

theorem number_element_reaches_the_parser:
  "parse_setup_contents sample_parse_requirements
       (Other ''Module''
          [Expr (Call (Name ''setup'') []
             [Keyword (Some ''install_requires'')
                (ListE [Constant (VStr ''a''), Constant (VInt 1), Constant (VStr ''b'')])])])
       ''setup.py''
     = Gen [\<lparr>name = ''a'', location = ''setup.py''\<rparr>] [] (Some TypeError)
   \<and> extract_element parse_requirements path_hint (Constant (VInt 1))
     = parse_requirements_contents parse_requirements (VInt 1) path_hint"
  by (simp add: parse_setup_contents_def walk_def extract_deps_from_setup_call_def
      keyword_body_def keyword_handler_def try_except_def parse_requirements_contents_def
      yield_def gen_empty_def raise_def log_def)


theorem extras_require_stops_at_first_bad_entry_witness:
  "extract_deps_from_setup_call sample_parse_requirements ''setup.py''
       [Keyword (Some ''name'') (Constant (VStr ''x'')),
        Keyword (Some ''extras_require'')
          (DictE [(Some (Constant (VStr ''y'')), ListE [Constant (VStr ''b'')]),
                  (Some (Constant (VStr ''x'')), Name ''deps''),
                  (Some (Constant (VStr ''z'')), ListE [Constant (VStr ''c'')])]),
        Keyword (Some ''install_requires'') (ListE [Constant (VStr ''a'')])]
     = Gen [\<lparr>name = ''b'', location = ''setup.py''\<rparr>, \<lparr>name = ''a'', location = ''setup.py''\<rparr>]
         [(DEBUG, Dump (DictE [(Some (Constant (VStr ''y'')), ListE [Constant (VStr ''b'')]),
                               (Some (Constant (VStr ''x'')), Name ''deps''),
                               (Some (Constant (VStr ''z'')), ListE [Constant (VStr ''c'')])])),
          (DEBUG, Dump (ListE [Constant (VStr ''b'')])),
          (DEBUG, Dump (Name ''deps'')),
          (DEBUG, ExcText (DependencyParsingError (Name ''deps''))),
          (WARNING, CouldNotParse (Some ''extras_require'') (Name ''deps''))]
         None
   \<and> extract_deps_from_setup_call sample_parse_requirements ''setup.py''
       [Keyword (Some ''name'') (Constant (VStr ''x'')),
        Keyword (Some ''extras_require'') (Name ''extras''),
        Keyword (Some ''install_requires'') (ListE [Constant (VStr ''a'')])]
     = Gen [\<lparr>name = ''a'', location = ''setup.py''\<rparr>]
         [(DEBUG, ExcText (DependencyParsingError (Name ''extras''))),
          (WARNING, CouldNotParse (Some ''extras_require'') (Name ''extras''))]
         None"
proof -
  let ?items = "[(Some (Constant (VStr ''y'')), ListE [Constant (VStr ''b'')]),
                 (Some (Constant (VStr ''x'')), Name ''deps''),
                 (Some (Constant (VStr ''z'')), ListE [Constant (VStr ''c'')])]"
  let ?kw = "Keyword (Some ''extras_require'') (DictE ?items)"
  let ?kw' = "Keyword (Some ''extras_require'') (Name ''extras'')"
  have entry: "kw_arg ?kw = Some ''extras_require'' \<and> kw_value ?kw = DictE ?items
      \<and> map snd ?items = [ListE [Constant (VStr ''b'')]] @ Name ''deps'' # [ListE [Constant (VStr ''c'')]]
      \<and> (\<forall>elts. Name ''deps'' \<noteq> ListE elts)
      \<and> (\<forall>elements \<in> set [ListE [Constant (VStr ''b'')]].
            raised (extract_deps_from_bottom_level_list sample_parse_requirements ''setup.py''
                      elements) = None)"
    by (simp add: parse_requirements_contents_def yield_def gen_empty_def)
  have top: "kw_arg ?kw' = Some ''extras_require'' \<and> (\<forall>items. kw_value ?kw' \<noteq> DictE items)"
    by simp
  have before: "extract_deps_from_setup_call sample_parse_requirements ''setup.py''
        [Keyword (Some ''name'') (Constant (VStr ''x''))]
      = Gen [] [] None"
    by (simp add: extract_deps_from_setup_call_def keyword_body_def try_except_def gen_empty_def)
  have after: "extract_deps_from_setup_call sample_parse_requirements ''setup.py''
        [Keyword (Some ''install_requires'') (ListE [Constant (VStr ''a'')])]
      = Gen [\<lparr>name = ''a'', location = ''setup.py''\<rparr>] [] None"
    by (simp add: extract_deps_from_setup_call_def keyword_body_def try_except_def
        parse_requirements_contents_def yield_def gen_empty_def)
  note stops = extras_require_stops_at_first_bad_entry
      [where parse_requirements = sample_parse_requirements and path_hint = "''setup.py''"
         and earlier = "[Keyword (Some ''name'') (Constant (VStr ''x''))]"
         and later = "[Keyword (Some ''install_requires'') (ListE [Constant (VStr ''a'')])]"]
  from stops [THEN conjunct1, THEN mp, OF entry] stops [THEN conjunct2, THEN mp, OF top]
  show ?thesis
    by (simp add: before after parse_requirements_contents_def yield_def gen_empty_def)
qed


section \<open>pyproject.toml: Poetry dependencies and groups\<close>

lemma for_each_filter_yield:
  "for_each xs (\<lambda>x. if P x then yield (f x) else gen_empty) = Gen (map f (filter P xs)) [] None"
  by (induction xs) (simp_all add: gen_empty_def yield_def)

lemma poetry_main_table:
  "subscript poetry_config ''dependencies'' = Inr (VDict deps) \<Longrightarrow>
     poetry_parse_main_dependencies poetry_config path_hint
       = Gen (map (\<lambda>k. \<lparr>name = k, location = path_hint\<rparr>)
                (filter (\<lambda>k. k \<noteq> ''python'') (map fst deps))) [] None"
  by (simp add: poetry_parse_main_dependencies_def for_each_filter_yield)

lemma group_loop_is_main_loop:
  "parse_group_dependencies poetry_config path_hint =
     (case subscript poetry_config ''group'' of
        Inl e \<Rightarrow> raise e
      | Inr groups \<Rightarrow>
          (case py_values groups of
             Inl e \<Rightarrow> raise e
           | Inr group_tables \<Rightarrow>
               for_each group_tables (\<lambda>group. poetry_parse_main_dependencies group path_hint)))"
  unfolding parse_group_dependencies_def poetry_parse_main_dependencies_def by (rule refl)

lemma poetry_fields_in_turn:
  "parse_poetry_pyproject_dependencies p cfg h =
     then_gen (try_except (poetry_parse_main_dependencies cfg h) (field_handler ''Poetry'' ''main'' h))
       (then_gen (try_except (parse_group_dependencies cfg h) (field_handler ''Poetry'' ''group'' h))
          (try_except (parse_extra_dependencies p cfg h) (field_handler ''Poetry'' ''extra'' h)))"
  by (simp add: parse_poetry_pyproject_dependencies_def then_gen_empty_right)


lemma try_except_no_raise: "raised g = None \<Longrightarrow> try_except g handler = g"
  by (simp add: try_except_def)

lemma groups_before:
  "map (\<lambda>g. subscript g ''dependencies'') pre = map (\<lambda>d. Inr (VDict d)) tables \<Longrightarrow>
     for_each pre (\<lambda>group. poetry_parse_main_dependencies group path_hint)
       = Gen (concat (map (\<lambda>d. map (\<lambda>k. \<lparr>name = k, location = path_hint\<rparr>)
                                 (filter (\<lambda>k. k \<noteq> ''python'') (map fst d))) tables)) [] None"
proof (induction pre arbitrary: tables)
  case Nil
  then show ?case by (simp add: gen_empty_def)
next
  case (Cons g pre)
  then obtain d ds where tables: "tables = d # ds"
    and g: "subscript g ''dependencies'' = Inr (VDict d)"
    and rest: "map (\<lambda>g. subscript g ''dependencies'') pre = map (\<lambda>d. Inr (VDict d)) ds"
    by (cases tables) auto
  show ?case
    by (simp add: tables poetry_main_table [OF g] Cons.IH [OF rest])
qed

lemma group_without_dependencies:
  "map_of tbl ''dependencies'' = None \<Longrightarrow>
     poetry_parse_main_dependencies (VDict tbl) path_hint = Gen [] [] (Some KeyError)"
  by (simp add: poetry_parse_main_dependencies_def raise_def)

lemma subscript_Inr:
  "subscript v k = Inr x \<Longrightarrow> \<exists>kvs. v = VDict kvs \<and> map_of kvs k = Some x"
  by (cases v) (auto split: option.splits)

lemma pyproject_with_poetry:
  assumes "subscript parsed_contents ''tool'' = Inr tool"
    and "subscript tool ''poetry'' = Inr poetry_config"
  shows "parse_pyproject_contents p parsed_contents h
    = then_gen (parse_pep621_pyproject_contents p parsed_contents h)
        (parse_poetry_pyproject_dependencies p poetry_config h)"
proof -
  from subscript_Inr [OF assms(1)] obtain kvs
    where doc: "parsed_contents = VDict kvs" "map_of kvs ''tool'' = Some tool" by auto
  from subscript_Inr [OF assms(2)] obtain tvs
    where tool: "tool = VDict tvs" "map_of tvs ''poetry'' = Some poetry_config" by auto
  from tool(2) have "''poetry'' \<in> fst ` set tvs"
    by (metis domI dom_map_of_conv_image_fst)
  with doc tool show ?thesis
    by (simp add: parse_pyproject_contents_def)
qed

text \<open>
  C8.  When \<open>dependencies\<close> of the Poetry table is a mapping, its field parser yields one
  record for each key other than \<open>python\<close>, in the order of the keys, named by the key,
  and none for \<open>python\<close>; these records open the output of the Poetry parser, and in the
  output of the whole file they follow the records of the PEP 621 pass (which runs
  first, so this needs that pass to end without an exception).
\<close>

theorem poetry_main_keys_except_python:
  "subscript poetry_config ''dependencies'' = Inr (VDict deps) \<longrightarrow>
     poetry_parse_main_dependencies poetry_config path_hint
       = Gen (map (\<lambda>k. \<lparr>name = k, location = path_hint\<rparr>)
                (filter (\<lambda>k. k \<noteq> ''python'') (map fst deps))) [] None
     \<and> ''python'' \<notin> name ` set (yielded (poetry_parse_main_dependencies poetry_config path_hint))
     \<and> (\<exists>others. yielded (parse_poetry_pyproject_dependencies parse_requirements poetry_config
                               path_hint)
           = map (\<lambda>k. \<lparr>name = k, location = path_hint\<rparr>)
               (filter (\<lambda>k. k \<noteq> ''python'') (map fst deps)) @ others)
     \<and> (subscript parsed_contents ''tool'' = Inr tool \<and> subscript tool ''poetry'' = Inr poetry_config
          \<and> raised (parse_pep621_pyproject_contents parse_requirements parsed_contents path_hint)
              = None \<longrightarrow>
          (\<exists>others. yielded (parse_pyproject_contents parse_requirements parsed_contents path_hint)
             = yielded (parse_pep621_pyproject_contents parse_requirements parsed_contents path_hint)
               @ map (\<lambda>k. \<lparr>name = k, location = path_hint\<rparr>)
                   (filter (\<lambda>k. k \<noteq> ''python'') (map fst deps)) @ others))"
proof (intro impI conjI)
  assume table: "subscript poetry_config ''dependencies'' = Inr (VDict deps)"
  show main: "poetry_parse_main_dependencies poetry_config path_hint
       = Gen (map (\<lambda>k. \<lparr>name = k, location = path_hint\<rparr>)
                (filter (\<lambda>k. k \<noteq> ''python'') (map fst deps))) [] None"
    by (rule poetry_main_table [OF table])
  show "''python'' \<notin> name ` set (yielded (poetry_parse_main_dependencies poetry_config path_hint))"
    unfolding main by auto
  show "\<exists>others. yielded (parse_poetry_pyproject_dependencies parse_requirements poetry_config
                               path_hint)
           = map (\<lambda>k. \<lparr>name = k, location = path_hint\<rparr>)
               (filter (\<lambda>k. k \<noteq> ''python'') (map fst deps)) @ others"
    unfolding poetry_fields_in_turn main
    by (simp add: try_except_no_raise yielded_then_gen)
  then obtain others where poetry:
    "yielded (parse_poetry_pyproject_dependencies parse_requirements poetry_config path_hint)
       = map (\<lambda>k. \<lparr>name = k, location = path_hint\<rparr>)
           (filter (\<lambda>k. k \<noteq> ''python'') (map fst deps)) @ others"
    by blast
  assume "subscript parsed_contents ''tool'' = Inr tool \<and> subscript tool ''poetry'' = Inr poetry_config
          \<and> raised (parse_pep621_pyproject_contents parse_requirements parsed_contents path_hint)
              = None"
  then show "\<exists>others. yielded (parse_pyproject_contents parse_requirements parsed_contents path_hint)
             = yielded (parse_pep621_pyproject_contents parse_requirements parsed_contents path_hint)
               @ map (\<lambda>k. \<lparr>name = k, location = path_hint\<rparr>)
                   (filter (\<lambda>k. k \<noteq> ''python'') (map fst deps)) @ others"
    by (simp add: pyproject_with_poetry yielded_then_gen poetry)
qed

theorem poetry_main_keys_except_python_witness:
  "subscript (VDict [(''dependencies'', VDict [(''python'', VStr ''^3.8''), (''requests'', VStr ''^2'')])])
       ''dependencies''
     = Inr (VDict [(''python'', VStr ''^3.8''), (''requests'', VStr ''^2'')])
   \<and> poetry_parse_main_dependencies
       (VDict [(''dependencies'', VDict [(''python'', VStr ''^3.8''), (''requests'', VStr ''^2'')])])
       ''pyproject.toml''
     = Gen [\<lparr>name = ''requests'', location = ''pyproject.toml''\<rparr>] [] None
   \<and> yielded (parse_pyproject_contents sample_parse_requirements
       (VDict [(''tool'', VDict [(''poetry'',
          VDict [(''dependencies'',
                  VDict [(''python'', VStr ''^3.8''), (''requests'', VStr ''^2'')])])])])
       ''pyproject.toml'')
     = [\<lparr>name = ''requests'', location = ''pyproject.toml''\<rparr>]"
proof -
  let ?deps = "[(''python'', VStr ''^3.8''), (''requests'', VStr ''^2'')]"
  let ?cfg = "VDict [(''dependencies'', VDict ?deps)]"
  have table: "subscript ?cfg ''dependencies'' = Inr (VDict ?deps)"
    by simp
  have whole: "yielded (parse_pyproject_contents sample_parse_requirements
       (VDict [(''tool'', VDict [(''poetry'', ?cfg)])]) ''pyproject.toml'')
     = [\<lparr>name = ''requests'', location = ''pyproject.toml''\<rparr>]"
    by (simp add: parse_pyproject_contents_def parse_pep621_pyproject_contents_def
        pep621_parse_main_dependencies_def parse_optional_dependencies_def
        parse_poetry_pyproject_dependencies_def poetry_parse_main_dependencies_def
        parse_group_dependencies_def parse_extra_dependencies_def
        try_except_def field_handler_def raise_def log_def yield_def gen_empty_def)
  from poetry_main_keys_except_python
         [where path_hint = "''pyproject.toml''", THEN mp, OF table, THEN conjunct1] table whole
  show ?thesis
    by simp
qed


text \<open>
  C9.  When a group table has no \<open>dependencies\<close> key and the groups before it have
  mappings there, the group field parser ends with \<^verbatim>\<open>KeyError\<close> at that group: it has
  yielded the records of the earlier groups and nothing of that group or the later ones.
  The Poetry parser keeps those records, logs the field as missing at debug level (not
  as an error), and goes on with the extras.
\<close>

theorem group_without_dependencies_ends_group_field:
  "subscript poetry_config ''group'' = Inr (VDict groups)
   \<and> map snd groups = pre @ VDict tbl # post
   \<and> map_of tbl ''dependencies'' = None
   \<and> map (\<lambda>g. subscript g ''dependencies'') pre = map (\<lambda>d. Inr (VDict d)) tables
   \<longrightarrow>
     parse_group_dependencies poetry_config path_hint
       = Gen (concat (map (\<lambda>d. map (\<lambda>k. \<lparr>name = k, location = path_hint\<rparr>)
                                 (filter (\<lambda>k. k \<noteq> ''python'') (map fst d))) tables))
           [] (Some KeyError)
     \<and> parse_poetry_pyproject_dependencies parse_requirements poetry_config path_hint
       = then_gen
           (try_except (poetry_parse_main_dependencies poetry_config path_hint)
              (field_handler ''Poetry'' ''main'' path_hint))
           (then_gen
              (Gen (concat (map (\<lambda>d. map (\<lambda>k. \<lparr>name = k, location = path_hint\<rparr>)
                                        (filter (\<lambda>k. k \<noteq> ''python'') (map fst d))) tables))
                 [(DEBUG, FailedTo ''find'' ''Poetry'' ''group'' path_hint)] None)
              (try_except (parse_extra_dependencies parse_requirements poetry_config path_hint)
                 (field_handler ''Poetry'' ''extra'' path_hint)))"
proof (intro impI)
  assume h: "subscript poetry_config ''group'' = Inr (VDict groups)
   \<and> map snd groups = pre @ VDict tbl # post
   \<and> map_of tbl ''dependencies'' = None
   \<and> map (\<lambda>g. subscript g ''dependencies'') pre = map (\<lambda>d. Inr (VDict d)) tables"
  let ?records = "concat (map (\<lambda>d. map (\<lambda>k. \<lparr>name = k, location = path_hint\<rparr>)
                                 (filter (\<lambda>k. k \<noteq> ''python'') (map fst d))) tables)"
  let ?body = "\<lambda>group. poetry_parse_main_dependencies group path_hint"
  from h have before: "for_each pre ?body = Gen ?records [] None"
    by (intro groups_before) simp
  from h have here: "?body (VDict tbl) = Gen [] [] (Some KeyError)"
    by (simp add: group_without_dependencies)
  have "for_each (pre @ VDict tbl # post) ?body = Gen ?records [] (Some KeyError)"
    by (simp add: for_each_append before here)
  with h have group: "parse_group_dependencies poetry_config path_hint
      = Gen ?records [] (Some KeyError)"
    by (simp add: group_loop_is_main_loop)
  have caught: "try_except (parse_group_dependencies poetry_config path_hint)
        (field_handler ''Poetry'' ''group'' path_hint)
      = Gen ?records [(DEBUG, FailedTo ''find'' ''Poetry'' ''group'' path_hint)] None"
    by (simp add: group try_except_def field_handler_def log_def)
  have whole: "parse_poetry_pyproject_dependencies parse_requirements poetry_config path_hint
       = then_gen
           (try_except (poetry_parse_main_dependencies poetry_config path_hint)
              (field_handler ''Poetry'' ''main'' path_hint))
           (then_gen
              (Gen ?records [(DEBUG, FailedTo ''find'' ''Poetry'' ''group'' path_hint)] None)
              (try_except (parse_extra_dependencies parse_requirements poetry_config path_hint)
                 (field_handler ''Poetry'' ''extra'' path_hint)))"
    by (simp only: poetry_fields_in_turn caught)
  from group whole
  show "parse_group_dependencies poetry_config path_hint = Gen ?records [] (Some KeyError)
     \<and> parse_poetry_pyproject_dependencies parse_requirements poetry_config path_hint
       = then_gen
           (try_except (poetry_parse_main_dependencies poetry_config path_hint)
              (field_handler ''Poetry'' ''main'' path_hint))
           (then_gen
              (Gen ?records [(DEBUG, FailedTo ''find'' ''Poetry'' ''group'' path_hint)] None)
              (try_except (parse_extra_dependencies parse_requirements poetry_config path_hint)
                 (field_handler ''Poetry'' ''extra'' path_hint)))"
    by (rule conjI)
qed

theorem group_without_dependencies_ends_group_field_witness:
  "parse_poetry_pyproject_dependencies sample_parse_requirements
       (VDict [(''group'',
          VDict [(''dev'', VDict [(''dependencies'', VDict [(''pytest'', VStr ''^7'')])]),
                 (''docs'', VDict [(''optional'', VBool True)]),
                 (''lint'', VDict [(''dependencies'', VDict [(''black'', VStr ''*'')])])]),
               (''extras'', VDict [(''all'', VList [VStr ''numpy''])])])
       ''pyproject.toml''
     = Gen [\<lparr>name = ''pytest'', location = ''pyproject.toml''\<rparr>,
            \<lparr>name = ''numpy'', location = ''pyproject.toml''\<rparr>]
         [(DEBUG, FailedTo ''find'' ''Poetry'' ''main'' ''pyproject.toml''),
          (DEBUG, FailedTo ''find'' ''Poetry'' ''group'' ''pyproject.toml'')]
         None"
proof -
  let ?groups = "[(''dev'', VDict [(''dependencies'', VDict [(''pytest'', VStr ''^7'')])]),
                  (''docs'', VDict [(''optional'', VBool True)]),
                  (''lint'', VDict [(''dependencies'', VDict [(''black'', VStr ''*'')])])]"
  let ?cfg = "VDict [(''group'', VDict ?groups),
                     (''extras'', VDict [(''all'', VList [VStr ''numpy''])])]"
  have hyp: "subscript ?cfg ''group'' = Inr (VDict ?groups)
   \<and> map snd ?groups
       = [VDict [(''dependencies'', VDict [(''pytest'', VStr ''^7'')])]]
         @ VDict [(''optional'', VBool True)]
         # [VDict [(''dependencies'', VDict [(''black'', VStr ''*'')])]]
   \<and> map_of [(''optional'', VBool True)] ''dependencies'' = None
   \<and> map (\<lambda>g. subscript g ''dependencies'')
         [VDict [(''dependencies'', VDict [(''pytest'', VStr ''^7'')])]]
       = map (\<lambda>d. Inr (VDict d)) [[(''pytest'', VStr ''^7'')]]"
    by simp
  from group_without_dependencies_ends_group_field
         [where parse_requirements = sample_parse_requirements and path_hint = "''pyproject.toml''",
          THEN mp, OF hyp, THEN conjunct2]
  show ?thesis
    by (simp add: poetry_parse_main_dependencies_def parse_extra_dependencies_def
        parse_requirements_contents_def try_except_def field_handler_def raise_def log_def
        yield_def gen_empty_def)
qed


section \<open>pyproject.toml: failures of one field\<close>
















lemma try_field_missing:
  "raised g = Some KeyError \<Longrightarrow>
     try_except g (field_handler family field_type h)
       = Gen (yielded g) (logged g @ [(DEBUG, FailedTo ''find'' family field_type h)]) None"
  by (simp add: try_except_def field_handler_def log_def)

lemma try_field_invalid:
  "raised g = Some TypeError \<or> raised g = Some AttributeError \<Longrightarrow>
     try_except g (field_handler family field_type h)
       = Gen (yielded g) (logged g @ [(ERROR, FailedTo ''parse'' family field_type h)]) None"
  by (auto simp: try_except_def field_handler_def log_def)



























end
